theory Spec2Isabelle
  imports Main "HOL-Library.AList" "HOL-Library.Sublist"
begin

section \<open>Values handled by backend\_logic.py\<close>

text \<open>
  The extraction services answer with JSON, which \<^verbatim>\<open>json.loads\<close> turns into
  Python values: \<^verbatim>\<open>None\<close>, booleans, integers, floats, strings, lists and dicts
  with string keys. A Python string is modelled as a \<^typ>\<open>string\<close> whose characters
  are read as the code points U+0000 to U+00FF. A dict is an association list in
  insertion order; a lookup takes the first binding of a key (a Python dict has one
  binding for each key).

  Of a float only its truth value matters to the code, so a float is either a finite value
  (mantissa and binary exponent), an infinity or a NaN.
\<close>

datatype pyfloat = Finite int int | PosInf | NegInf | NaN

datatype json =
    JNull
  | JBool bool
  | JInt int
  | JFloat pyfloat
  | JStr string
  | JList "json list"
  | JDict "(string \<times> json) list"

text \<open>The exceptions the modelled functions can raise.\<close>

datatype error =
    ValueError
  | RuntimeError
  | TypeError
  | AttributeError
  | KeyError
  | IndexError
  | OSError
  | ServiceError
  | GraphRecursionError

text \<open>Python's truth value of a value (\<^verbatim>\<open>bool(x)\<close>, \<^verbatim>\<open>not x\<close>, \<^verbatim>\<open>if x\<close>).\<close>

fun truthy :: "json \<Rightarrow> bool" where
  "truthy JNull = False"
| "truthy (JBool b) = b"
| "truthy (JInt n) = (n \<noteq> 0)"
| "truthy (JFloat (Finite m e)) = (m \<noteq> 0)"
| "truthy (JFloat _) = True"
| "truthy (JStr s) = (s \<noteq> [])"
| "truthy (JList xs) = (xs \<noteq> [])"
| "truthy (JDict kvs) = (kvs \<noteq> [])"

text \<open>\<^verbatim>\<open>isinstance(x, dict)\<close>.\<close>

fun is_dict :: "json \<Rightarrow> bool" where
  "is_dict (JDict _) = True"
| "is_dict _ = False"

text \<open>
  \<^verbatim>\<open>d.get(k)\<close>, \<^verbatim>\<open>d.get(k, default)\<close>, \<^verbatim>\<open>k in d\<close> and \<^verbatim>\<open>d[k]\<close> on the
  bindings of a dict, and \<^verbatim>\<open>xs[0]\<close> on a list.
\<close>

definition dict_get :: "(string \<times> json) list \<Rightarrow> string \<Rightarrow> json" where
  "dict_get kvs k = (case map_of kvs k of None \<Rightarrow> JNull | Some v \<Rightarrow> v)"

definition dict_get_default :: "(string \<times> json) list \<Rightarrow> string \<Rightarrow> json \<Rightarrow> json" where
  "dict_get_default kvs k dflt = (case map_of kvs k of None \<Rightarrow> dflt | Some v \<Rightarrow> v)"

definition has_key :: "(string \<times> json) list \<Rightarrow> string \<Rightarrow> bool" where
  "has_key kvs k = (map_of kvs k \<noteq> None)"

definition subscript_key :: "(string \<times> json) list \<Rightarrow> string \<Rightarrow> error + json" where
  "subscript_key kvs k = (case map_of kvs k of None \<Rightarrow> Inl KeyError | Some v \<Rightarrow> Inr v)"

definition subscript_0 :: "json list \<Rightarrow> error + json" where
  "subscript_0 xs = (case xs of [] \<Rightarrow> Inl IndexError | x # _ \<Rightarrow> Inr x)"

text \<open>Sequencing of steps that may raise.\<close>

definition bind_e :: "error + 'a \<Rightarrow> ('a \<Rightarrow> error + 'b) \<Rightarrow> error + 'b" where
  "bind_e m f = (case m of Inl e \<Rightarrow> Inl e | Inr v \<Rightarrow> f v)"

section \<open>Helpers\<close>

subsection \<open>safe\_extract\<close>

text \<open>
  \<^verbatim>\<open>
  def safe_extract(field):
      if not field:
          return None
      if isinstance(field, list):
          for item in field:
              if isinstance(item, dict) and "value" in item:
                  return item["value"]
          return field[0] if field else None
      if isinstance(field, dict):
          return field.get("value")
      return field
  \<close>
  \<open>first_value\<close> is the \<^verbatim>\<open>for\<close> loop: what it returns, if it returns.
\<close>

fun first_value :: "json list \<Rightarrow> (error + json) option" where
  "first_value [] = None"
| "first_value (JDict kvs # items) =
     (if has_key kvs ''value'' then Some (subscript_key kvs ''value'') else first_value items)"
| "first_value (_ # items) = first_value items"

definition safe_extract :: "json \<Rightarrow> error + json" where
  "safe_extract field =
     (if \<not> truthy field then Inr JNull
      else case field of
          JList items \<Rightarrow>
            (case first_value items of
               Some r \<Rightarrow> r
             | None \<Rightarrow> if items \<noteq> [] then subscript_0 items else Inr JNull)
        | JDict kvs \<Rightarrow> Inr (dict_get kvs ''value'')
        | _ \<Rightarrow> Inr field)"

subsection \<open>Characters\<close>

text \<open>
  The character classes of Python on the code points below 256: white space
  (\<^verbatim>\<open>str.isspace\<close>, the class \<^verbatim>\<open>\s\<close> and what \<^verbatim>\<open>str.strip()\<close> removes),
  decimal digits (\<^verbatim>\<open>\d\<close>) and word characters (\<^verbatim>\<open>\w\<close>: alphanumerics and
  the underscore).
\<close>

definition code_point :: "char \<Rightarrow> nat" where
  "code_point c = of_char c"

definition is_space :: "char \<Rightarrow> bool" where
  "is_space c =
     (let n = code_point c
      in (9 \<le> n \<and> n \<le> 13) \<or> (28 \<le> n \<and> n \<le> 32) \<or> n = 133 \<or> n = 160)"

definition is_digit :: "char \<Rightarrow> bool" where
  "is_digit c = (let n = code_point c in 48 \<le> n \<and> n \<le> 57)"

definition digit_val :: "char \<Rightarrow> nat" where
  "digit_val c = code_point c - 48"

definition is_word :: "char \<Rightarrow> bool" where
  "is_word c =
     (let n = code_point c
      in (48 \<le> n \<and> n \<le> 57) \<or> (65 \<le> n \<and> n \<le> 90) \<or> n = 95 \<or> (97 \<le> n \<and> n \<le> 122)
         \<or> n = 170 \<or> n = 178 \<or> n = 179 \<or> n = 181 \<or> n = 185 \<or> n = 186
         \<or> (188 \<le> n \<and> n \<le> 190) \<or> (192 \<le> n \<and> n \<le> 214)
         \<or> (216 \<le> n \<and> n \<le> 246) \<or> (248 \<le> n \<and> n \<le> 255))"

definition strip :: "string \<Rightarrow> string" where
  "strip s = rev (dropWhile is_space (rev (dropWhile is_space s)))"

subsection \<open>Calendar dates and strptime\<close>

datatype pydate = Date (year: nat) (month: nat) (day: nat)

definition is_leap :: "nat \<Rightarrow> bool" where
  "is_leap y = (y mod 4 = 0 \<and> (y mod 100 \<noteq> 0 \<or> y mod 400 = 0))"

definition days_in_month :: "nat \<Rightarrow> nat \<Rightarrow> nat" where
  "days_in_month y m =
     (if m = 2 then (if is_leap y then 29 else 28)
      else if m = 4 \<or> m = 6 \<or> m = 9 \<or> m = 11 then 30 else 31)"

text \<open>
  The constructor of \<^verbatim>\<open>datetime\<close>: a year from 1 to 9999, a month from 1 to 12 and
  a day of that month, or a \<^verbatim>\<open>ValueError\<close>.
\<close>

definition make_date :: "nat \<Rightarrow> nat \<Rightarrow> nat \<Rightarrow> error + pydate" where
  "make_date y m d =
     (if 1 \<le> y \<and> y \<le> 9999 \<and> 1 \<le> m \<and> m \<le> 12 \<and> 1 \<le> d \<and> d \<le> days_in_month y m
      then Inr (Date y m d) else Inl ValueError)"

text \<open>\<^verbatim>\<open>dt.replace(year=y)\<close>.\<close>

definition replace_year :: "pydate \<Rightarrow> nat \<Rightarrow> error + pydate" where
  "replace_year dt y = make_date y (month dt) (day dt)"

text \<open>
  A format string is a list of directives and literal characters:
  \<^verbatim>\<open>"%d/%m/%Y"\<close> is \<open>[Dir_d, Lit CHR ''/'', Dir_m, Lit CHR ''/'', Dir_Y]\<close>.
\<close>

datatype fmt_item = Dir_d | Dir_m | Dir_Y | Dir_y | Lit char

type_synonym format = "fmt_item list"

text \<open>
  \<^verbatim>\<open>strptime\<close> turns the format into a regular expression and matches it at the start
  of the string. Each directive is an alternation, tried in the order written, and a later
  failure backtracks into it:
  \<^verbatim>\<open>
  'd': r"(?P<d>3[0-1]|[1-2]\d|0[1-9]|[1-9]| [1-9])"
  'm': r"(?P<m>1[0-2]|0[1-9]|[1-9])"
  'y': r"(?P<y>\d\d)"
  'Y': r"(?P<Y>\d\d\d\d)"
  \<close>
  \<open>day_alts s\<close> lists, in that order, the ways \<^verbatim>\<open>%d\<close> matches a prefix of
  \<open>s\<close>: the number read and the rest of the string. \<open>month_alts\<close>,
  \<open>year4_alts\<close> and \<open>year2_alts\<close> do so for \<^verbatim>\<open>%m\<close>, \<^verbatim>\<open>%Y\<close> and
  \<^verbatim>\<open>%y\<close>.
\<close>

fun day_alts :: "string \<Rightarrow> (nat \<times> string) list" where
  "day_alts (a # b # s) =
     (let two = 10 * digit_val a + digit_val b
      in (if is_digit a \<and> is_digit b \<and> 1 \<le> two \<and> two \<le> 31 then [(two, s)] else [])
         @ (if is_digit a \<and> 1 \<le> digit_val a then [(digit_val a, b # s)] else [])
         @ (if a = CHR '' '' \<and> is_digit b \<and> 1 \<le> digit_val b then [(digit_val b, s)] else []))"
| "day_alts [a] = (if is_digit a \<and> 1 \<le> digit_val a then [(digit_val a, [])] else [])"
| "day_alts [] = []"

fun month_alts :: "string \<Rightarrow> (nat \<times> string) list" where
  "month_alts (a # b # s) =
     (let two = 10 * digit_val a + digit_val b
      in (if is_digit a \<and> is_digit b \<and> 1 \<le> two \<and> two \<le> 12 then [(two, s)] else [])
         @ (if is_digit a \<and> 1 \<le> digit_val a then [(digit_val a, b # s)] else []))"
| "month_alts [a] = (if is_digit a \<and> 1 \<le> digit_val a then [(digit_val a, [])] else [])"
| "month_alts [] = []"

fun year4_alts :: "string \<Rightarrow> (nat \<times> string) list" where
  "year4_alts (a # b # c # d # s) =
     (if is_digit a \<and> is_digit b \<and> is_digit c \<and> is_digit d
      then [(1000 * digit_val a + 100 * digit_val b + 10 * digit_val c + digit_val d, s)]
      else [])"
| "year4_alts _ = []"

fun year2_alts :: "string \<Rightarrow> (nat \<times> string) list" where
  "year2_alts (a # b # s) =
     (if is_digit a \<and> is_digit b then [(10 * digit_val a + digit_val b, s)] else [])"
| "year2_alts _ = []"

text \<open>
  The groups found by the match. Of a two-digit year \<^verbatim>\<open>strptime\<close> makes a year of
  2000 to 2068 (up to 68) or of 1969 to 1999 (from 69 on):
  \<^verbatim>\<open>
  if group_key == 'y':
      year = int(found_dict['y'])
      if year <= 68: year += 2000
      else: year += 1900
  \<close>
\<close>

record found =
  f_year :: nat
  f_month :: nat
  f_day :: nat

definition found_init :: found where
  "found_init = \<lparr>f_year = 1900, f_month = 1, f_day = 1\<rparr>"

definition century :: "nat \<Rightarrow> nat" where
  "century yy = (if yy \<le> 68 then yy + 2000 else yy + 1900)"

text \<open>
  The backtracking match of a format at the start of a string: the groups of the first
  match in the order of the alternatives, and what is left of the string.
\<close>

fun first_some :: "('a \<Rightarrow> 'b option) \<Rightarrow> 'a list \<Rightarrow> 'b option" where
  "first_some f [] = None"
| "first_some f (x # xs) = (case f x of Some r \<Rightarrow> Some r | None \<Rightarrow> first_some f xs)"

fun regex_match :: "format \<Rightarrow> string \<Rightarrow> found \<Rightarrow> (found \<times> string) option" where
  "regex_match [] s acc = Some (acc, s)"
| "regex_match (Lit c # fmt) s acc =
     (case s of [] \<Rightarrow> None | x # rest \<Rightarrow> if x = c then regex_match fmt rest acc else None)"
| "regex_match (Dir_d # fmt) s acc =
     first_some (\<lambda>(n, rest). regex_match fmt rest (acc\<lparr>f_day := n\<rparr>)) (day_alts s)"
| "regex_match (Dir_m # fmt) s acc =
     first_some (\<lambda>(n, rest). regex_match fmt rest (acc\<lparr>f_month := n\<rparr>)) (month_alts s)"
| "regex_match (Dir_Y # fmt) s acc =
     first_some (\<lambda>(n, rest). regex_match fmt rest (acc\<lparr>f_year := n\<rparr>)) (year4_alts s)"
| "regex_match (Dir_y # fmt) s acc =
     first_some (\<lambda>(n, rest). regex_match fmt rest (acc\<lparr>f_year := century n\<rparr>)) (year2_alts s)"

text \<open>
  \<^verbatim>\<open>datetime.strptime(value, fmt)\<close> followed by \<^verbatim>\<open>.date()\<close>: no match, text
  left after the match, and a day the month does not have are each a
  \<^verbatim>\<open>ValueError\<close>.
\<close>

definition strptime :: "string \<Rightarrow> format \<Rightarrow> error + pydate" where
  "strptime v fmt =
     (case regex_match fmt v found_init of
        None \<Rightarrow> Inl ValueError
      | Some (g, rest) \<Rightarrow>
          if rest \<noteq> [] then Inl ValueError
          else make_date (f_year g) (f_month g) (f_day g))"

subsection \<open>parse\_date\<close>

text \<open>
  \<^verbatim>\<open>
  def parse_date(value):
      if not value or not isinstance(value, str):
          return None
      value = value.strip()
      formats = ["%d/%m/%Y", "%d/%m/%y", "%m/%d/%Y", "%m/%d/%y", "%Y-%m-%d"]
      for fmt in formats:
          try:
              dt = datetime.strptime(value, fmt)
              if "%y" in fmt and dt.year < 1930:  # Fix 2-digit years
                  dt = dt.replace(year=dt.year + 100)
              return dt.date()
          except ValueError:
              continue
      return None
  \<close>
\<close>

definition formats :: "format list" where
  "formats =
     [[Dir_d, Lit (CHR ''/''), Dir_m, Lit (CHR ''/''), Dir_Y],
      [Dir_d, Lit (CHR ''/''), Dir_m, Lit (CHR ''/''), Dir_y],
      [Dir_m, Lit (CHR ''/''), Dir_d, Lit (CHR ''/''), Dir_Y],
      [Dir_m, Lit (CHR ''/''), Dir_d, Lit (CHR ''/''), Dir_y],
      [Dir_Y, Lit (CHR ''-''), Dir_m, Lit (CHR ''-''), Dir_d]]"

text \<open>The body of the \<^verbatim>\<open>try\<close>: \<open>None\<close> when it raises \<^verbatim>\<open>ValueError\<close>.\<close>

definition try_format :: "string \<Rightarrow> format \<Rightarrow> pydate option" where
  "try_format v fmt =
     (case strptime v fmt of
        Inl _ \<Rightarrow> None
      | Inr dt \<Rightarrow>
          if Dir_y \<in> set fmt \<and> year dt < 1930
          then (case replace_year dt (year dt + 100) of Inl _ \<Rightarrow> None | Inr dt' \<Rightarrow> Some dt')
          else Some dt)"

fun try_formats :: "format list \<Rightarrow> string \<Rightarrow> pydate option" where
  "try_formats [] v = None"
| "try_formats (fmt # fmts) v =
     (case try_format v fmt of Some dt \<Rightarrow> Some dt | None \<Rightarrow> try_formats fmts v)"

definition parse_date :: "json \<Rightarrow> pydate option" where
  "parse_date v =
     (case v of
        JStr s \<Rightarrow> if s = [] then None else try_formats formats (strip s)
      | _ \<Rightarrow> None)"

subsection \<open>normalize\_dates\<close>

text \<open>
  A record on its way to the table holds JSON values and date objects.
  \<^verbatim>\<open>
  def normalize_dates(record: dict):
      for key, value in record.items():
          if isinstance(value, (datetime, date)):
              record[key] = value.isoformat()
      return record
  \<close>
\<close>

datatype pyval = PJson json | PDate pydate

definition digit_char :: "nat \<Rightarrow> char" where
  "digit_char n = char_of (48 + n mod 10)"

definition isoformat :: "pydate \<Rightarrow> string" where
  "isoformat dt =
     [digit_char (year dt div 1000), digit_char (year dt div 100), digit_char (year dt div 10),
      digit_char (year dt), CHR ''-'', digit_char (month dt div 10), digit_char (month dt),
      CHR ''-'', digit_char (day dt div 10), digit_char (day dt)]"

definition normalize_dates :: "(string \<times> pyval) list \<Rightarrow> (string \<times> json) list" where
  "normalize_dates record =
     map (\<lambda>(key, v). (key, case v of PDate dt \<Rightarrow> JStr (isoformat dt) | PJson j \<Rightarrow> j)) record"

subsection \<open>normalize\_comparison\<close>

text \<open>
  \<^verbatim>\<open>
  def normalize_comparison(data):
      normalized = {
          "name": {"claim_table": False},
          "license_no": {"claim_table": False, "dl_table": False},
          "address": {"claim_table": False, "dl_table": False},
          "car_make": {"claim_car": False},
          "car_model": {"claim_car": False},
          "car_color": {"claim_car": False},
          "damage_details": {"claim_car": False},
          "license_validity": False
      }
      if not isinstance(data, dict):
          return normalized
      for key in normalized:
          if key == "license_validity":
              normalized[key] = bool(data.get(key, False))
          else:
              field_data = data.get(key, {})
              if not isinstance(field_data, dict):
                  field_data = {}
              for subkey in normalized[key]:
                  normalized[key][subkey] = bool(field_data.get(subkey, False))
      return normalized
  \<close>
\<close>

definition normalized_init :: "(string \<times> json) list" where
  "normalized_init =
     [(''name'', JDict [(''claim_table'', JBool False)]),
      (''license_no'', JDict [(''claim_table'', JBool False), (''dl_table'', JBool False)]),
      (''address'', JDict [(''claim_table'', JBool False), (''dl_table'', JBool False)]),
      (''car_make'', JDict [(''claim_car'', JBool False)]),
      (''car_model'', JDict [(''claim_car'', JBool False)]),
      (''car_color'', JDict [(''claim_car'', JBool False)]),
      (''damage_details'', JDict [(''claim_car'', JBool False)]),
      (''license_validity'', JBool False)]"

text \<open>The inner loop over the subkeys of one field, and the body of the outer loop.\<close>

definition normalize_subfields ::
  "(string \<times> json) list \<Rightarrow> (string \<times> json) list \<Rightarrow> (string \<times> json) list" where
  "normalize_subfields field_data subs =
     map (\<lambda>(subkey, _). (subkey, JBool (truthy (dict_get_default field_data subkey (JBool False)))))
       subs"

definition normalize_field :: "(string \<times> json) list \<Rightarrow> string \<times> json \<Rightarrow> string \<times> json" where
  "normalize_field data entry =
     (case entry of (key, dflt) \<Rightarrow>
        if key = ''license_validity''
        then (key, JBool (truthy (dict_get_default data key (JBool False))))
        else
          (let field_data = (case dict_get_default data key (JDict []) of
                               JDict kvs \<Rightarrow> kvs | _ \<Rightarrow> []);
               subs = (case dflt of JDict kvs \<Rightarrow> kvs | _ \<Rightarrow> [])
           in (key, JDict (normalize_subfields field_data subs))))"

definition normalize_comparison :: "json \<Rightarrow> json" where
  "normalize_comparison data =
     (case data of
        JDict kvs \<Rightarrow> JDict (map (normalize_field kvs) normalized_init)
      | _ \<Rightarrow> JDict normalized_init)"

subsection \<open>The decision of compare\_and\_email\<close>

text \<open>
  \<^verbatim>\<open>
  # Only accept if all required fields match
  all_match = True
  required_fields = [
      ("name", ["claim_table"]),
      ("license_no", ["claim_table", "dl_table"]),
      ("address", ["claim_table", "dl_table"]),
      ("car_make", ["claim_car"]),
      ("car_model", ["claim_car"]),
      ("car_color", ["claim_car"]),
      ("damage_details", ["claim_car"]),
      ("license_validity", []),
  ]
  for field, subfields in required_fields:
      field_result = comparison.get(field, {})
      if field == "license_validity":
          # Coerce any type to boolean silently
          if isinstance(field_result, dict):
              field_result = field_result.get("value", False)
          all_match = bool(field_result)
      else:
          for sub in subfields:
              if field_result.get(sub) is not True:
                  all_match = False

  decision = "Claim Accepted" if all_match else "Claim Rejected"
  \<close>
  The loops carry \<^verbatim>\<open>all_match\<close>; \<^verbatim>\<open>.get\<close> on a value that is no dict is an
  \<^verbatim>\<open>AttributeError\<close>.
\<close>

definition required_fields :: "(string \<times> string list) list" where
  "required_fields =
     [(''name'', [''claim_table'']),
      (''license_no'', [''claim_table'', ''dl_table'']),
      (''address'', [''claim_table'', ''dl_table'']),
      (''car_make'', [''claim_car'']),
      (''car_model'', [''claim_car'']),
      (''car_color'', [''claim_car'']),
      (''damage_details'', [''claim_car'']),
      (''license_validity'', [])]"

fun check_subfields :: "string list \<Rightarrow> json \<Rightarrow> bool \<Rightarrow> error + bool" where
  "check_subfields [] field_result all_match = Inr all_match"
| "check_subfields (sub # subs) field_result all_match =
     (case field_result of
        JDict kvs \<Rightarrow>
          check_subfields subs field_result
            (if dict_get kvs sub \<noteq> JBool True then False else all_match)
      | _ \<Rightarrow> Inl AttributeError)"

fun check_required ::
  "(string \<times> string list) list \<Rightarrow> (string \<times> json) list \<Rightarrow> bool \<Rightarrow> error + bool" where
  "check_required [] comparison all_match = Inr all_match"
| "check_required ((field, subfields) # rest) comparison all_match =
     (let field_result = dict_get_default comparison field (JDict [])
      in if field = ''license_validity''
         then
           (let field_result' =
                  (case field_result of
                     JDict kvs \<Rightarrow> dict_get_default kvs ''value'' (JBool False)
                   | _ \<Rightarrow> field_result)
            in check_required rest comparison (truthy field_result'))
         else
           bind_e (check_subfields subfields field_result all_match)
             (check_required rest comparison))"

definition decide :: "json \<Rightarrow> error + string" where
  "decide comparison =
     (case comparison of
        JDict kvs \<Rightarrow>
          bind_e (check_required required_fields kvs True)
            (\<lambda>all_match. Inr (if all_match then ''Claim Accepted'' else ''Claim Rejected''))
      | _ \<Rightarrow> Inl AttributeError)"

subsection \<open>The regular expressions\<close>

definition newline :: char where
  "newline = CHR 0x0A"

text \<open>
  \<^verbatim>\<open>re.match(r'^[\w-]+$', license_number)\<close>: one or more word characters or hyphens
  from the start, up to the end of the string or to a line feed that ends it
  (\<^verbatim>\<open>$\<close> matches there too).
\<close>

definition license_char :: "char \<Rightarrow> bool" where
  "license_char c = (is_word c \<or> c = CHR ''-'')"

definition license_re_match :: "string \<Rightarrow> bool" where
  "license_re_match s =
     (let rest = dropWhile license_char s
      in takeWhile license_char s \<noteq> [] \<and> (rest = [] \<or> rest = [newline]))"

text \<open>
  \<^verbatim>\<open>re.search(r"Color:\s*(.+?)(,|$)", text, re.IGNORECASE)\<close>, giving group 1 of the
  match. The search tries each start position from the left. At a position where
  \<^verbatim>\<open>color:\<close> stands (in any case), \<^verbatim>\<open>\s*\<close> first takes all the white space that
  follows and gives it back one character at a time; after it \<^verbatim>\<open>(.+?)\<close> takes one
  character other than a line feed, then as few more as possible, until a comma or the end
  of the text (or a line feed that ends it) follows.
\<close>

definition lower_ascii :: "char \<Rightarrow> char" where
  "lower_ascii c =
     (let n = code_point c in if 65 \<le> n \<and> n \<le> 90 then char_of (n + 32) else c)"

fun strip_prefix_ci :: "string \<Rightarrow> string \<Rightarrow> string option" where
  "strip_prefix_ci [] text = Some text"
| "strip_prefix_ci (p # ps) [] = None"
| "strip_prefix_ci (p # ps) (c # cs) =
     (if lower_ascii c = p then strip_prefix_ci ps cs else None)"

definition end_ok :: "string \<Rightarrow> bool" where
  "end_ok rest = (case rest of [] \<Rightarrow> True | c # t \<Rightarrow> c = CHR '','' \<or> (c = newline \<and> t = []))"

fun lazy_dot :: "string \<Rightarrow> string \<Rightarrow> string option" where
  "lazy_dot acc [] = None"
| "lazy_dot acc (x # rest) =
     (if x = newline then None
      else if end_ok rest then Some (acc @ [x])
      else lazy_dot (acc @ [x]) rest)"

fun ws_backtrack :: "nat \<Rightarrow> string \<Rightarrow> string option" where
  "ws_backtrack 0 rest = lazy_dot [] rest"
| "ws_backtrack (Suc k) rest =
     (case lazy_dot [] (drop (Suc k) rest) of
        Some g \<Rightarrow> Some g
      | None \<Rightarrow> ws_backtrack k rest)"

definition color_at :: "string \<Rightarrow> string option" where
  "color_at text =
     (case strip_prefix_ci ''color:'' text of
        None \<Rightarrow> None
      | Some rest \<Rightarrow> ws_backtrack (length (takeWhile is_space rest)) rest)"

fun color_search :: "string \<Rightarrow> string option" where
  "color_search [] = color_at []"
| "color_search (c # cs) =
     (case color_at (c # cs) of Some g \<Rightarrow> Some g | None \<Rightarrow> color_search cs)"

section \<open>The workflow state and the outside world\<close>

text \<open>
  The keys of \<^verbatim>\<open>State\<close> (and \<^verbatim>\<open>files\<close> of \<^verbatim>\<open>WorkflowState\<close>); a key that is
  not set is \<open>None\<close>. An uploaded file has a name and its bytes.
\<close>

record upfile =
  file_name :: string
  file_bytes :: string

record state =
  dl_path :: "string option"
  claim_path :: "string option"
  car_path :: "string option"
  car_local :: "string option"
  dl :: "(string \<times> json) list option"
  claim :: "json option"
  car :: "json option"
  steps :: "string list"
  files :: "(string \<times> upfile) list option"
  comparison :: "json option"
  decision :: "string option"
  email :: "string option"

text \<open>
  What a node returns: a dict with some of the keys, and with \<^verbatim>\<open>table_row\<close>, which
  \<^verbatim>\<open>extract_dl\<close> returns although it is no key of \<^verbatim>\<open>State\<close>.
\<close>

record update =
  u_dl_path :: "string option"
  u_claim_path :: "string option"
  u_car_path :: "string option"
  u_car_local :: "string option"
  u_dl :: "(string \<times> json) list option"
  u_table_row :: "(string \<times> json) list option option"
  u_claim :: "json option"
  u_car :: "json option"
  u_steps :: "string list"
  u_comparison :: "json option"
  u_decision :: "string option"
  u_email :: "string option"

definition no_update :: update where
  "no_update =
     \<lparr>u_dl_path = None, u_claim_path = None, u_car_path = None, u_car_local = None,
      u_dl = None, u_table_row = None, u_claim = None, u_car = None, u_steps = [],
      u_comparison = None, u_decision = None, u_email = None\<rparr>"

text \<open>
  Everything outside the process is a parameter: the identifiers \<^verbatim>\<open>uuid4\<close> hands out,
  the scratch directory and the stage, the two prediction functions, the licence table, and
  the replies of the language model. Each answers with a value or with the exception it
  raised. For the language model the answer is what the code has made of the reply when its
  parsing is over (\<^verbatim>\<open>car_data\<close>, \<^verbatim>\<open>comparison\<close> before normalisation,
  \<^verbatim>\<open>email_text\<close>).
\<close>

record env =
  uuid4 :: "nat \<Rightarrow> string"
  local_dir :: string
  stage_put :: "string \<Rightarrow> string \<Rightarrow> error option"
  license_predict :: "string \<Rightarrow> error + json"
  claims_predict :: "string \<Rightarrow> error + json"
  table_filter :: "string \<Rightarrow> error + (string \<times> pyval) list list"
  table_merge :: "(string \<times> json) list \<Rightarrow> error option"
  car_reply :: "string \<Rightarrow> string \<Rightarrow> error + json"
  comparison_reply :: "state \<Rightarrow> error + json"
  email_reply :: "json \<Rightarrow> string \<Rightarrow> error + string"

text \<open>What a run does to the outside, in the order it does it.\<close>

datatype event =
    NodeRun string
  | StagePut string
  | TableFetch string
  | TableMerge "(string \<times> json) list"

section \<open>Nodes\<close>

subsection \<open>upload\_all\<close>

text \<open>
  \<^verbatim>\<open>
  def upload_to_stage(file, filename):
      local_path = os.path.join(LOCAL_PATH, filename)
      with open(local_path, "wb") as f:
          f.write(file.read())
      session.file.put(local_path, STAGE_NAME, overwrite=True, auto_compress=False)
      return filename, local_path

  def upload_all(state: State):
      files = state.get("files")
      if not files:
          raise ValueError("Missing 'files' in workflow state.")
      dl_name, _ = upload_to_stage(files["dl"], f"{uuid.uuid4()}_{files['dl'].name}")
      claim_name, _ = upload_to_stage(files["claim"], f"{uuid.uuid4()}_{files['claim'].name}")
      car_name, car_path = upload_to_stage(files["car"], f"{uuid.uuid4()}_{files['car'].name}")
      return {"dl_path": dl_name, "claim_path": claim_name, "car_path": car_name,
              "car_local": car_path, "steps": ["Uploaded"]}
  \<close>
\<close>

definition path_join :: "string \<Rightarrow> string \<Rightarrow> string" where
  "path_join a b =
     (if b \<noteq> [] \<and> hd b = CHR ''/'' then b
      else if a = [] \<or> last a = CHR ''/'' then a @ b
      else a @ ''/'' @ b)"

definition upload_to_stage ::
  "env \<Rightarrow> upfile \<Rightarrow> string \<Rightarrow> event list \<times> (error + string \<times> string)" where
  "upload_to_stage w file filename =
     (let local_path = path_join (local_dir w) filename
      in ([StagePut filename],
          case stage_put w local_path (file_bytes file) of
            Some e \<Rightarrow> Inl e
          | None \<Rightarrow> Inr (filename, local_path)))"

definition get_file :: "(string \<times> upfile) list \<Rightarrow> string \<Rightarrow> error + upfile" where
  "get_file fs k = (case map_of fs k of None \<Rightarrow> Inl KeyError | Some f \<Rightarrow> Inr f)"

definition upload_one ::
  "env \<Rightarrow> (string \<times> upfile) list \<Rightarrow> string \<Rightarrow> nat \<Rightarrow> event list \<times> (error + string \<times> string)" where
  "upload_one w fs k i =
     (case get_file fs k of
        Inl e \<Rightarrow> ([], Inl e)
      | Inr f \<Rightarrow> upload_to_stage w f (uuid4 w i @ ''_'' @ file_name f))"

definition upload_all :: "env \<Rightarrow> state \<Rightarrow> event list \<times> (error + update)" where
  "upload_all w st =
     (case files st of
        None \<Rightarrow> ([], Inl ValueError)
      | Some fs \<Rightarrow>
          if fs = [] then ([], Inl ValueError)
          else
            (case upload_one w fs ''dl'' 0 of
               (ev1, Inl e) \<Rightarrow> (ev1, Inl e)
             | (ev1, Inr (dl_name, _)) \<Rightarrow>
                 (case upload_one w fs ''claim'' 1 of
                    (ev2, Inl e) \<Rightarrow> (ev1 @ ev2, Inl e)
                  | (ev2, Inr (claim_name, _)) \<Rightarrow>
                      (case upload_one w fs ''car'' 2 of
                         (ev3, Inl e) \<Rightarrow> (ev1 @ ev2 @ ev3, Inl e)
                       | (ev3, Inr (car_name, car_path')) \<Rightarrow>
                           (ev1 @ ev2 @ ev3,
                            Inr (no_update\<lparr>u_dl_path := Some dl_name,
                                   u_claim_path := Some claim_name,
                                   u_car_path := Some car_name,
                                   u_car_local := Some car_path',
                                   u_steps := [''Uploaded'']\<rparr>))))))"

subsection \<open>extract\_dl\<close>

text \<open>
  \<^verbatim>\<open>
  raw_dob = safe_extract(result.get("dob"))
  raw_issue = safe_extract(result.get("issue_date"))
  raw_expiry = safe_extract(result.get("expiry_date"))
  dl_record_full = {
      "FULL_NAME": safe_extract(result.get("name")) or "Unknown",
      "LICENSE_NUMBER": safe_extract(result.get("license_no")),
      "ADDRESS": safe_extract(result.get("address")),
      "DATE_OF_BIRTH": parse_date(raw_dob),
      "ISSUE_DATE": parse_date(raw_issue),
      "EXPIRY_DATE": parse_date(raw_expiry),
      "ENDORSEMENTS": safe_extract(result.get("endorsements")) or "",
      "SEX": safe_extract(result.get("sex")),
      "HEIGHT": safe_extract(result.get("height")),
  }
  dl_record_full = normalize_dates(dl_record_full)
  \<close>
\<close>

definition py_or :: "json \<Rightarrow> json \<Rightarrow> json" where
  "py_or a b = (if truthy a then a else b)"

definition date_val :: "pydate option \<Rightarrow> pyval" where
  "date_val d = (case d of None \<Rightarrow> PJson JNull | Some dt \<Rightarrow> PDate dt)"

definition extract_key :: "(string \<times> json) list \<Rightarrow> string \<Rightarrow> error + json" where
  "extract_key result k = safe_extract (dict_get result k)"

definition dl_record :: "(string \<times> json) list \<Rightarrow> error + (string \<times> json) list" where
  "dl_record result =
     bind_e (extract_key result ''dob'') (\<lambda>raw_dob.
     bind_e (extract_key result ''issue_date'') (\<lambda>raw_issue.
     bind_e (extract_key result ''expiry_date'') (\<lambda>raw_expiry.
     bind_e (extract_key result ''name'') (\<lambda>name.
     bind_e (extract_key result ''license_no'') (\<lambda>license_no.
     bind_e (extract_key result ''address'') (\<lambda>address.
     bind_e (extract_key result ''endorsements'') (\<lambda>endorsements.
     bind_e (extract_key result ''sex'') (\<lambda>sex.
     bind_e (extract_key result ''height'') (\<lambda>height.
       Inr (normalize_dates
         [(''FULL_NAME'', PJson (py_or name (JStr ''Unknown''))),
          (''LICENSE_NUMBER'', PJson license_no),
          (''ADDRESS'', PJson address),
          (''DATE_OF_BIRTH'', date_val (parse_date raw_dob)),
          (''ISSUE_DATE'', date_val (parse_date raw_issue)),
          (''EXPIRY_DATE'', date_val (parse_date raw_expiry)),
          (''ENDORSEMENTS'', PJson (py_or endorsements (JStr []))),
          (''SEX'', PJson sex),
          (''HEIGHT'', PJson height)]))))))))))"

text \<open>
  \<^verbatim>\<open>
  def extract_dl(state: State):
      path = state["dl_path"]
      try:
          sql = f"SELECT LICENSE_DATA!PREDICT(GET_PRESIGNED_URL({STAGE_NAME}, '{path}'), 1) AS result"
          result = json.loads(session.sql(sql).collect()[0]["RESULT"])
      except Exception as e:
          raise RuntimeError(f"Failed to run LICENSE_DATA PREDICT: {e}")
      ...
      table_row = None
      license_number = dl_record_full["LICENSE_NUMBER"]
      if license_number:
          import re
          if not re.match(r'^[\w-]+$', license_number):
              raise ValueError("Invalid license number format")
          try:
              table_result = session.table(TABLE_NAME).filter(
                  f"LICENSE_NUMBER = '{license_number}'"
              ).collect()
              if table_result:
                  table_row = table_result[0].asDict()
                  table_row = normalize_dates(table_row)
          except Exception as e:
              print(f"Could not fetch table row for LICENSE_NUMBER {license_number}: {e}")

      if not dl_record_full["LICENSE_NUMBER"]:
          print("Skipping merge: No LICENSE_NUMBER found.")
          return {"dl": dl_record_full, "table_row": table_row,
                  "steps": ["DL Extracted (Not Stored: Missing License Number)"]}

      try:
          df_new = session.create_dataframe([dl_record_full])
          target = session.table(TABLE_NAME)
          target.merge(...)
      except Exception as e:
          print(f"Failed to merge DL record: {e}")

      return {"dl": dl_record_full, "table_row": table_row,
              "steps": ["Driver's License Extracted & Stored"]}
  \<close>
  \<^verbatim>\<open>re.match\<close> on a value that is no string is a \<^verbatim>\<open>TypeError\<close>; \<^verbatim>\<open>.get\<close> on a
  result that is no dict is an \<^verbatim>\<open>AttributeError\<close>. A failure of the table lookup or of
  the merge is caught and printed: the lookup then leaves \<^verbatim>\<open>table_row\<close> at
  \<^verbatim>\<open>None\<close>, and the node returns the same dict whether the merge went through or not.
\<close>

definition fetch_row :: "env \<Rightarrow> string \<Rightarrow> (string \<times> json) list option" where
  "fetch_row w license_number =
     (case table_filter w license_number of
        Inl _ \<Rightarrow> None
      | Inr [] \<Rightarrow> None
      | Inr (row # _) \<Rightarrow> Some (normalize_dates row))"

definition extract_dl :: "env \<Rightarrow> state \<Rightarrow> event list \<times> (error + update)" where
  "extract_dl w st =
     (case dl_path st of
        None \<Rightarrow> ([], Inl KeyError)
      | Some path \<Rightarrow>
          (case license_predict w path of
             Inl _ \<Rightarrow> ([], Inl RuntimeError)
           | Inr (JDict result) \<Rightarrow>
               (case dl_record result of
                  Inl e \<Rightarrow> ([], Inl e)
                | Inr dl_record_full \<Rightarrow>
                    (let license_number = dict_get dl_record_full ''LICENSE_NUMBER''
                     in if truthy license_number
                        then
                          (case license_number of
                             JStr s \<Rightarrow>
                               if \<not> license_re_match s then ([], Inl ValueError)
                               else
                                 ([TableFetch s, TableMerge dl_record_full],
                                  Inr (no_update\<lparr>u_dl := Some dl_record_full,
                                         u_table_row := Some (fetch_row w s),
                                         u_steps := [''Driver's License Extracted & Stored'']\<rparr>))
                           | _ \<Rightarrow> ([], Inl TypeError))
                        else
                          ([], Inr (no_update\<lparr>u_dl := Some dl_record_full,
                                      u_table_row := Some None,
                                      u_steps :=
                                        [''DL Extracted (Not Stored: Missing License Number)'']\<rparr>))))
           | Inr _ \<Rightarrow> ([], Inl AttributeError)))"

subsection \<open>extract\_claim\<close>

text \<open>
  \<^verbatim>\<open>
  def extract_claim(state: State):
      path = state["claim_path"]
      sql = f"SELECT CLAIMS_DATA!PREDICT(GET_PRESIGNED_URL({STAGE_NAME}, '{path}'), 1) AS result"
      result = json.loads(session.sql(sql).collect()[0]["RESULT"])
      for field in ["description", "vehicle"]:
          text = result.get(field, [{}])[0].get("value", "")
          match = re.search(r"Color:\s*(.+?)(,|$)", text, re.IGNORECASE)
          if match:
              result["car_color"] = [{"value": match.group(1).strip()}]
              break
      return {"claim": result, "steps": ["Claim Extracted"]}
  \<close>
  \<open>item_0\<close> is \<^verbatim>\<open>x[0]\<close> on any value: the first element of a list, the first
  character of a string, \<^verbatim>\<open>IndexError\<close> when either is empty, \<^verbatim>\<open>KeyError\<close> on a
  dict (its keys are strings) and \<^verbatim>\<open>TypeError\<close> on everything else.
  \<open>get_value\<close> is \<^verbatim>\<open>x.get("value", "")\<close>, which only a dict has, and
  \<open>search_color\<close> is the search, which only takes a string.
\<close>

definition item_0 :: "json \<Rightarrow> error + json" where
  "item_0 x =
     (case x of
        JList xs \<Rightarrow> subscript_0 xs
      | JStr s \<Rightarrow> (case s of [] \<Rightarrow> Inl IndexError | c # _ \<Rightarrow> Inr (JStr [c]))
      | JDict _ \<Rightarrow> Inl KeyError
      | _ \<Rightarrow> Inl TypeError)"

definition get_value :: "json \<Rightarrow> error + json" where
  "get_value x =
     (case x of
        JDict kvs \<Rightarrow> Inr (dict_get_default kvs ''value'' (JStr []))
      | _ \<Rightarrow> Inl AttributeError)"

definition search_color :: "json \<Rightarrow> error + string option" where
  "search_color text = (case text of JStr s \<Rightarrow> Inr (color_search s) | _ \<Rightarrow> Inl TypeError)"

definition field_text :: "(string \<times> json) list \<Rightarrow> string \<Rightarrow> error + json" where
  "field_text result field =
     bind_e (item_0 (dict_get_default result field (JList [JDict []]))) get_value"

fun color_scan :: "string list \<Rightarrow> (string \<times> json) list \<Rightarrow> error + (string \<times> json) list" where
  "color_scan [] result = Inr result"
| "color_scan (field # flds) result =
     bind_e (field_text result field) (\<lambda>text.
     bind_e (search_color text) (\<lambda>m.
       case m of
         Some g \<Rightarrow>
           Inr (AList.update ''car_color'' (JList [JDict [(''value'', JStr (strip g))]]) result)
       | None \<Rightarrow> color_scan flds result))"

definition extract_claim :: "env \<Rightarrow> state \<Rightarrow> event list \<times> (error + update)" where
  "extract_claim w st =
     ([],
      case claim_path st of
        None \<Rightarrow> Inl KeyError
      | Some path \<Rightarrow>
          (case claims_predict w path of
             Inl e \<Rightarrow> Inl e
           | Inr (JDict result) \<Rightarrow>
               bind_e (color_scan [''description'', ''vehicle''] result) (\<lambda>result'.
                 Inr (no_update\<lparr>u_claim := Some (JDict result'),
                        u_steps := [''Claim Extracted'']\<rparr>))
           | Inr _ \<Rightarrow> Inl AttributeError))"

subsection \<open>extract\_car\<close>

text \<open>
  \<^verbatim>\<open>
  def extract_car(state: State):
      def get_image_mime(ext: str):
          mapping = {"jpg": "image/jpeg", "jpeg": "image/jpeg", "png": "image/png",
                     "gif": "image/gif", "webp": "image/webp"}
          return mapping.get(ext.lower())
      path = state["car_local"]
      ext = path.split(".")[-1]
      mime_type = get_image_mime(ext)
      if not mime_type:
          raise ValueError(f"Unsupported image format: {ext}")
      ...
      return {"car": car_data, "steps": ["Car Analyzed"]}
  \<close>
  The rest of the node reads the file, asks the model and parses the reply into
  \<^verbatim>\<open>car_data\<close>: that is \<open>car_reply\<close>.
\<close>

definition py_lower :: "string \<Rightarrow> string" where
  "py_lower s =
     map (\<lambda>c. let n = code_point c
               in if (65 \<le> n \<and> n \<le> 90) \<or> (192 \<le> n \<and> n \<le> 214) \<or> (216 \<le> n \<and> n \<le> 222)
                  then char_of (n + 32) else c) s"

definition get_image_mime :: "string \<Rightarrow> string option" where
  "get_image_mime ext =
     map_of [(''jpg'', ''image/jpeg''), (''jpeg'', ''image/jpeg''), (''png'', ''image/png''),
             (''gif'', ''image/gif''), (''webp'', ''image/webp'')] (py_lower ext)"

definition last_part :: "string \<Rightarrow> string" where
  "last_part path = rev (takeWhile (\<lambda>c. c \<noteq> CHR ''.'') (rev path))"

definition extract_car :: "env \<Rightarrow> state \<Rightarrow> event list \<times> (error + update)" where
  "extract_car w st =
     ([],
      case car_local st of
        None \<Rightarrow> Inl KeyError
      | Some path \<Rightarrow>
          (let ext = last_part path
           in case get_image_mime ext of
                None \<Rightarrow> Inl ValueError
              | Some mime_type \<Rightarrow>
                  bind_e (car_reply w path ext) (\<lambda>car_data.
                    Inr (no_update\<lparr>u_car := Some car_data, u_steps := [''Car Analyzed'']\<rparr>))))"

subsection \<open>compare\_and\_email\<close>

text \<open>
  \<^verbatim>\<open>
  def compare_and_email(state: State):
      dl = state["dl"]
      claim = state["claim"]
      car = state["car"]
      table_row = state.get("table_row")
      ...
      comparison = normalize_comparison(comparison)
      ... (the decision, above)
      return {"comparison": comparison, "decision": decision, "email": email_text,
              "steps": ["Compared & Emailed"]}
  \<close>
\<close>

definition require :: "'a option \<Rightarrow> error + 'a" where
  "require x = (case x of None \<Rightarrow> Inl KeyError | Some v \<Rightarrow> Inr v)"

definition compare_and_email :: "env \<Rightarrow> state \<Rightarrow> event list \<times> (error + update)" where
  "compare_and_email w st =
     ([],
      bind_e (require (dl st)) (\<lambda>_.
      bind_e (require (claim st)) (\<lambda>_.
      bind_e (require (car st)) (\<lambda>_.
      bind_e (comparison_reply w st) (\<lambda>parsed.
        let comparison' = normalize_comparison parsed
        in bind_e (decide comparison') (\<lambda>decision'.
           bind_e (email_reply w comparison' decision') (\<lambda>email_text.
             Inr (no_update\<lparr>u_comparison := Some comparison',
                    u_decision := Some decision',
                    u_email := Some email_text,
                    u_steps := [''Compared & Emailed'']\<rparr>))))))))"

section \<open>The graph\<close>

text \<open>
  \<^verbatim>\<open>
  def run_claim_processing_workflow(files):
      class WorkflowState(State):
          files: dict
      builder = StateGraph(WorkflowState)
      builder.add_node("upload", upload_all)
      builder.add_node("extract_dl", extract_dl)
      builder.add_node("extract_claim", extract_claim)
      builder.add_node("extract_car", extract_car)
      builder.add_node("compare_email", compare_and_email)
      builder.set_entry_point("upload")
      builder.add_edge("upload", "extract_dl")
      builder.add_edge("extract_dl", "extract_claim")
      builder.add_edge("extract_claim", "extract_car")
      builder.add_edge("extract_car", "compare_email")
      builder.add_edge("compare_email", END)
      graph = builder.compile()
      return graph.invoke({"files": files, "steps": []})
  \<close>
  The graph is the data the builder was given. Running it starts at the entry point; the
  dict a node returns is merged into the state, a key of the state at a time: the value
  replaces the old one, except under \<^verbatim>\<open>steps\<close>, whose annotation
  \<^verbatim>\<open>Annotated[list, operator.add]\<close> appends it; a key the state does not have is
  dropped. Then the edge out of the node is followed, to the next node or to the end. An
  exception in a node ends the run and is what the caller gets. A run of more steps than
  the recursion limit (25) is ended by \<^verbatim>\<open>GraphRecursionError\<close>.
\<close>

type_synonym node = "state \<Rightarrow> event list \<times> (error + update)"

record graph =
  nodes :: "(string \<times> node) list"
  entry_point :: string
  edges :: "(string \<times> string) list"

definition END :: string where
  "END = ''__end__''"

definition overwrite :: "'a option \<Rightarrow> 'a option \<Rightarrow> 'a option" where
  "overwrite old new = (case new of None \<Rightarrow> old | Some v \<Rightarrow> Some v)"

definition merge_update :: "state \<Rightarrow> update \<Rightarrow> state" where
  "merge_update st u =
     st\<lparr>dl_path := overwrite (dl_path st) (u_dl_path u),
        claim_path := overwrite (claim_path st) (u_claim_path u),
        car_path := overwrite (car_path st) (u_car_path u),
        car_local := overwrite (car_local st) (u_car_local u),
        dl := overwrite (dl st) (u_dl u),
        claim := overwrite (claim st) (u_claim u),
        car := overwrite (car st) (u_car u),
        steps := steps st @ u_steps u,
        comparison := overwrite (comparison st) (u_comparison u),
        decision := overwrite (decision st) (u_decision u),
        email := overwrite (email st) (u_email u)\<rparr>"

fun invoke :: "nat \<Rightarrow> graph \<Rightarrow> string \<Rightarrow> state \<Rightarrow> event list \<times> (error + state)" where
  "invoke 0 g name st = ([], Inl GraphRecursionError)"
| "invoke (Suc limit) g name st =
     (case map_of (nodes g) name of
        None \<Rightarrow> ([], Inl KeyError)
      | Some f \<Rightarrow>
          (case f st of
             (evs, Inl e) \<Rightarrow> (NodeRun name # evs, Inl e)
           | (evs, Inr u) \<Rightarrow>
               (let st' = merge_update st u
                in case map_of (edges g) name of
                     None \<Rightarrow> (NodeRun name # evs, Inr st')
                   | Some next \<Rightarrow>
                       if next = END then (NodeRun name # evs, Inr st')
                       else
                         (case invoke limit g next st' of
                            (evs', r) \<Rightarrow> (NodeRun name # evs @ evs', r)))))"

definition workflow_graph :: "env \<Rightarrow> graph" where
  "workflow_graph w =
     \<lparr>nodes = [(''upload'', upload_all w),
               (''extract_dl'', extract_dl w),
               (''extract_claim'', extract_claim w),
               (''extract_car'', extract_car w),
               (''compare_email'', compare_and_email w)],
      entry_point = ''upload'',
      edges = [(''upload'', ''extract_dl''),
               (''extract_dl'', ''extract_claim''),
               (''extract_claim'', ''extract_car''),
               (''extract_car'', ''compare_email''),
               (''compare_email'', END)]\<rparr>"

definition initial_state :: "(string \<times> upfile) list \<Rightarrow> state" where
  "initial_state fs =
     \<lparr>dl_path = None, claim_path = None, car_path = None, car_local = None, dl = None,
      claim = None, car = None, steps = [], files = Some fs, comparison = None,
      decision = None, email = None\<rparr>"

definition run_claim_processing_workflow ::
  "env \<Rightarrow> (string \<times> upfile) list \<Rightarrow> event list \<times> (error + state)" where
  "run_claim_processing_workflow w fs =
     invoke 25 (workflow_graph w) (entry_point (workflow_graph w)) (initial_state fs)"

text \<open>The nodes a run entered, in order, read off its events.\<close>

fun nodes_run :: "event list \<Rightarrow> string list" where
  "nodes_run [] = []"
| "nodes_run (NodeRun name # evs) = name # nodes_run evs"
| "nodes_run (_ # evs) = nodes_run evs"

section \<open>Notions used in the statements\<close>

text \<open>
  The test \<^verbatim>\<open>isinstance(item, dict) and "value" in item\<close> of \<^verbatim>\<open>safe_extract\<close>,
  and \<^verbatim>\<open>isinstance(x, list)\<close>.
\<close>

definition value_dict :: "json \<Rightarrow> bool" where
  "value_dict item = (case item of JDict kvs \<Rightarrow> has_key kvs ''value'' | _ \<Rightarrow> False)"

fun is_list :: "json \<Rightarrow> bool" where
  "is_list (JList _) = True"
| "is_list _ = False"

text \<open>
  Reading a verdict: \<open>top_of v field\<close> is the entry of \<open>v\<close> under \<open>field\<close> and
  \<open>sub_of v field sub\<close> the entry under \<open>sub\<close> inside it, \<^verbatim>\<open>None\<close> where a key
  is missing or a value on the way is no dict. \<open>required_pairs\<close> are the field and subfield
  pairs of \<^verbatim>\<open>required_fields\<close>. A verdict conforms to the schema when it has the keys of
  the dict \<^verbatim>\<open>normalized\<close> starts from, in its order, with a boolean at every leaf.
\<close>

fun is_bool :: "json \<Rightarrow> bool" where
  "is_bool (JBool _) = True"
| "is_bool _ = False"

definition top_of :: "json \<Rightarrow> string \<Rightarrow> json" where
  "top_of v field = (case v of JDict kvs \<Rightarrow> dict_get kvs field | _ \<Rightarrow> JNull)"

definition sub_of :: "json \<Rightarrow> string \<Rightarrow> string \<Rightarrow> json" where
  "sub_of v field sub = top_of (top_of v field) sub"

definition same_shape :: "string \<times> json \<Rightarrow> string \<times> json \<Rightarrow> bool" where
  "same_shape entry dflt =
     (fst entry = fst dflt \<and>
      (case snd dflt of
         JDict subs \<Rightarrow>
           (case snd entry of
              JDict vs \<Rightarrow> map fst vs = map fst subs \<and> list_all (\<lambda>kv. is_bool (snd kv)) vs
            | _ \<Rightarrow> False)
       | _ \<Rightarrow> is_bool (snd entry)))"

definition conforms_schema :: "json \<Rightarrow> bool" where
  "conforms_schema v =
     (case v of JDict kvs \<Rightarrow> list_all2 same_shape kvs normalized_init | _ \<Rightarrow> False)"

definition required_pairs :: "(string \<times> string) list" where
  "required_pairs = concat (map (\<lambda>(field, subs). map (Pair field) subs) required_fields)"

text \<open>
  The pipeline as the specification words it, for claim C9: the stages run one after the
  other in the order given, each on the state the one before left; the first stage that
  raises ends the run with its exception, and no stage after it runs.
\<close>

fun spec_pipeline :: "(string \<times> node) list \<Rightarrow> state \<Rightarrow> event list \<times> (error + state)" where
  "spec_pipeline [] st = ([], Inr st)"
| "spec_pipeline ((name, f) # rest) st =
     (case f st of
        (evs, Inl e) \<Rightarrow> (NodeRun name # evs, Inl e)
      | (evs, Inr u) \<Rightarrow>
          (case spec_pipeline rest (merge_update st u) of
             (evs', r) \<Rightarrow> (NodeRun name # evs @ evs', r)))"

definition stage_order :: "string list" where
  "stage_order = [''upload'', ''extract_dl'', ''extract_claim'', ''extract_car'', ''compare_email'']"

definition stages :: "env \<Rightarrow> (string \<times> node) list" where
  "stages w = [(''upload'', upload_all w), (''extract_dl'', extract_dl w),
     (''extract_claim'', extract_claim w), (''extract_car'', extract_car w),
     (''compare_email'', compare_and_email w)]"

text \<open>
  For claim C10: a field of the claim result is in order when it is absent or a non-empty
  list whose first element is a dict, and a colour is found in a field when the text of the
  field can be read and the search matches in it.
\<close>

definition field_ok :: "(string \<times> json) list \<Rightarrow> string \<Rightarrow> bool" where
  "field_ok result field =
     (case map_of result field of
        None \<Rightarrow> True
      | Some (JList (JDict _ # _)) \<Rightarrow> True
      | Some _ \<Rightarrow> False)"

definition color_found :: "(string \<times> json) list \<Rightarrow> string \<Rightarrow> bool" where
  "color_found result field =
     (case bind_e (field_text result field) search_color of
        Inr (Some _) \<Rightarrow> True
      | _ \<Rightarrow> False)"

section \<open>Sample inputs\<close>

text \<open>
  Three uploaded files, an outside world whose services succeed and answer with the given
  licence result, claim result and verdict, and the state the upload leaves behind.
\<close>

definition sample_files :: "(string \<times> upfile) list" where
  "sample_files =
     [(''dl'', \<lparr>file_name = ''dl.png'', file_bytes = ''a''\<rparr>),
      (''claim'', \<lparr>file_name = ''claim.pdf'', file_bytes = ''b''\<rparr>),
      (''car'', \<lparr>file_name = ''car.jpg'', file_bytes = ''c''\<rparr>)]"

definition sample_env :: "json \<Rightarrow> json \<Rightarrow> json \<Rightarrow> env" where
  "sample_env license_result claim_result verdict =
     \<lparr>uuid4 = (\<lambda>i. ''id''),
      local_dir = ''/tmp'',
      stage_put = (\<lambda>path bytes. None),
      license_predict = (\<lambda>path. Inr license_result),
      claims_predict = (\<lambda>path. Inr claim_result),
      table_filter = (\<lambda>number. Inr []),
      table_merge = (\<lambda>record. None),
      car_reply = (\<lambda>path ext. Inr (JDict [(''make'', JStr ''Ford'')])),
      comparison_reply = (\<lambda>st. Inr verdict),
      email_reply = (\<lambda>verdict decision. Inr ''Dear customer'')\<rparr>"

definition uploaded_state :: state where
  "uploaded_state =
     (initial_state sample_files)\<lparr>dl_path := Some ''id_dl.png'',
        claim_path := Some ''id_claim.pdf'', car_path := Some ''id_car.jpg'',
        car_local := Some ''/tmp/id_car.jpg'', steps := [''Uploaded'']\<rparr>"

definition valid_license :: json where
  "valid_license = JDict [(''name'', JStr ''Ann Lee''), (''license_no'', JStr ''D123-45''),
     (''expiry_date'', JStr ''31/12/2030'')]"

definition invalid_license :: json where
  "invalid_license = JDict [(''name'', JStr ''Ann Lee''), (''license_no'', JStr ''AB 12'')]"

definition sample_claim :: json where
  "sample_claim = JDict [(''description'', JList [JDict [(''value'', JStr ''Color: red, dent'')]])]"

definition sample_verdict :: json where
  "sample_verdict = JDict [(''license_validity'', JBool True)]"

definition mixed_claim :: json where
  "mixed_claim = JDict [(''description'', JList [JDict [(''value'', JStr ''Color: red, dent'')]]),
                        (''vehicle'', JStr ''sedan'')]"

definition string_claim :: json where
  "string_claim = JDict [(''description'', JStr ''Color: red, dent'')]"

section \<open>Properties\<close>

subsection \<open>safe\_extract\<close>

lemma first_value_find:
  "first_value items =
     (case find value_dict items of
        Some (JDict kvs) \<Rightarrow> Some (Inr (dict_get kvs ''value''))
      | _ \<Rightarrow> None)"
proof (induction items rule: first_value.induct)
  case 1
  then show ?case by simp
next
  case (2 kvs items)
  then show ?case
    by (auto simp: value_dict_def has_key_def subscript_key_def dict_get_def split: option.splits)
qed (simp_all add: value_dict_def)

lemma find_value_dict_shape: "find value_dict items = Some x \<Longrightarrow> \<exists>kvs. x = JDict kvs"
proof -
  assume "find value_dict items = Some x"
  then have "value_dict x" by (auto simp: find_Some_iff)
  then show ?thesis by (cases x) (simp_all add: value_dict_def)
qed

lemma safe_extract_total: "\<exists>v. safe_extract field = Inr v"
proof (cases "truthy field")
  case False
  then show ?thesis by (simp add: safe_extract_def)
next
  case True
  show ?thesis
  proof (cases field)
    case (JList items)
    with True have ne: "items \<noteq> []" by simp
    show ?thesis
    proof (cases "find value_dict items")
      case None
      with JList True ne show ?thesis
        by (cases items) (simp_all add: safe_extract_def first_value_find subscript_0_def)
    next
      case (Some x)
      then obtain kvs where "x = JDict kvs" using find_value_dict_shape by blast
      with Some JList True show ?thesis
        by (simp add: safe_extract_def first_value_find)
    qed
  qed (use True in \<open>simp_all add: safe_extract_def\<close>)
qed

text \<open>
  Claim C8, as the code has it. \<^verbatim>\<open>safe_extract\<close> raises on no input. It returns
  \<^verbatim>\<open>None\<close> for every input that Python counts as false (\<^verbatim>\<open>None\<close>, \<^verbatim>\<open>False\<close>,
  zero, the empty string, list and dict); for a non-empty dict its \<^verbatim>\<open>value\<close> entry, which is
  \<^verbatim>\<open>None\<close> when the dict has no such key; for a non-empty list the \<^verbatim>\<open>value\<close> entry of
  the first item that is a dict with that key, and the first item of the list when there
  is no such item; and every other value unchanged.
\<close>

theorem safe_extract_shapes:
  "(\<exists>v. safe_extract field = Inr v)
   \<and> (\<not> truthy field \<longrightarrow> safe_extract field = Inr JNull)
   \<and> (kvs \<noteq> [] \<longrightarrow> safe_extract (JDict kvs) = Inr (dict_get kvs ''value''))
   \<and> (items \<noteq> [] \<longrightarrow>
        safe_extract (JList items) =
          Inr (case find value_dict items of
                 Some (JDict d) \<Rightarrow> dict_get d ''value''
               | _ \<Rightarrow> hd items))
   \<and> (truthy field \<and> \<not> is_list field \<and> \<not> is_dict field \<longrightarrow> safe_extract field = Inr field)"
proof -
  have a: "\<exists>v. safe_extract field = Inr v" by (rule safe_extract_total)
  have b: "\<not> truthy field \<longrightarrow> safe_extract field = Inr JNull"
    by (simp add: safe_extract_def)
  have c: "kvs \<noteq> [] \<longrightarrow> safe_extract (JDict kvs) = Inr (dict_get kvs ''value'')"
    by (simp add: safe_extract_def)
  have d: "items \<noteq> [] \<longrightarrow>
        safe_extract (JList items) =
          Inr (case find value_dict items of
                 Some (JDict d) \<Rightarrow> dict_get d ''value''
               | _ \<Rightarrow> hd items)"
  proof
    assume ne: "items \<noteq> []"
    show "safe_extract (JList items) =
          Inr (case find value_dict items of
                 Some (JDict d) \<Rightarrow> dict_get d ''value''
               | _ \<Rightarrow> hd items)"
    proof (cases "find value_dict items")
      case None
      with ne show ?thesis
        by (cases items) (simp_all add: safe_extract_def first_value_find subscript_0_def)
    next
      case (Some x)
      then obtain kvs where "x = JDict kvs" using find_value_dict_shape by blast
      with Some ne show ?thesis
        by (simp add: safe_extract_def first_value_find)
    qed
  qed
  have e: "truthy field \<and> \<not> is_list field \<and> \<not> is_dict field \<longrightarrow> safe_extract field = Inr field"
    by (cases field) (simp_all add: safe_extract_def)
  from a b c d e show ?thesis by blast
qed

text \<open>
  The statement above at a falsy scalar, a dict without \<^verbatim>\<open>value\<close>, a list whose second
  item carries the value, and a string.
\<close>

theorem safe_extract_shapes_witness:
  "\<not> truthy (JInt 0) \<and> safe_extract (JInt 0) = Inr JNull
   \<and> [(''text'', JStr ''A1'')] \<noteq> [] \<and> safe_extract (JDict [(''text'', JStr ''A1'')]) = Inr JNull
   \<and> [JStr ''A1'', JDict [(''value'', JStr ''B2'')]] \<noteq> []
   \<and> safe_extract (JList [JStr ''A1'', JDict [(''value'', JStr ''B2'')]]) = Inr (JStr ''B2'')
   \<and> truthy (JStr ''A1'') \<and> \<not> is_list (JStr ''A1'') \<and> \<not> is_dict (JStr ''A1'')
   \<and> safe_extract (JStr ''A1'') = Inr (JStr ''A1'')"
  using safe_extract_shapes [of "JInt 0" "[(''text'', JStr ''A1'')]" "[JStr ''A1'', JDict [(''value'', JStr ''B2'')]]"]
    safe_extract_shapes [of "JStr ''A1''" "[(''text'', JStr ''A1'')]" "[JStr ''A1'', JDict [(''value'', JStr ''B2'')]]"]
  by (simp add: value_dict_def has_key_def dict_get_def)

text \<open>
  Claim C8 as written fails: where no known shape matches, the input is not returned
  unchanged. A dict without a \<^verbatim>\<open>value\<close> key gives \<^verbatim>\<open>None\<close>, a list without a dict
  that has one gives its first item, and the scalar \<^verbatim>\<open>0\<close> gives \<^verbatim>\<open>None\<close>.
\<close>

theorem safe_extract_raw_input_counterexample:
  "safe_extract (JDict [(''text'', JStr ''A1'')]) = Inr JNull
   \<and> safe_extract (JDict [(''text'', JStr ''A1'')]) \<noteq> Inr (JDict [(''text'', JStr ''A1'')])
   \<and> safe_extract (JList [JStr ''A1'', JStr ''B2'']) = Inr (JStr ''A1'')
   \<and> safe_extract (JList [JStr ''A1'', JStr ''B2'']) \<noteq> Inr (JList [JStr ''A1'', JStr ''B2''])
   \<and> safe_extract (JInt 0) = Inr JNull
   \<and> safe_extract (JInt 0) \<noteq> Inr (JInt 0)"
  by (simp add: safe_extract_def dict_get_def subscript_0_def)

subsection \<open>parse\_date\<close>

lemma try_formats_Some_iff:
  "try_formats fs v = Some d \<longleftrightarrow>
     (\<exists>i<length fs. try_format v (fs ! i) = Some d \<and> (\<forall>j<i. try_format v (fs ! j) = None))"
proof (induction fs)
  case Nil
  then show ?case by simp
next
  case (Cons f fs)
  show ?case
  proof (cases "try_format v f")
    case (Some d')
    have "(\<exists>i<length (f # fs). try_format v ((f # fs) ! i) = Some d
             \<and> (\<forall>j<i. try_format v ((f # fs) ! j) = None)) \<longleftrightarrow> d' = d"
    proof
      assume "\<exists>i<length (f # fs). try_format v ((f # fs) ! i) = Some d
             \<and> (\<forall>j<i. try_format v ((f # fs) ! j) = None)"
      then obtain i where i: "i < length (f # fs)" "try_format v ((f # fs) ! i) = Some d"
        "\<forall>j<i. try_format v ((f # fs) ! j) = None" by blast
      have "i = 0"
      proof (rule ccontr)
        assume "i \<noteq> 0"
        then have "0 < i" by simp
        with i(3) have "try_format v ((f # fs) ! 0) = None" by blast
        with Some show False by simp
      qed
      with i(2) Some show "d' = d" by simp
    next
      assume "d' = d"
      with Some have "try_format v ((f # fs) ! 0) = Some d" by simp
      then show "\<exists>i<length (f # fs). try_format v ((f # fs) ! i) = Some d
             \<and> (\<forall>j<i. try_format v ((f # fs) ! j) = None)" by auto
    qed
    with Some show ?thesis by simp
  next
    case None
    have "(\<exists>i<length (f # fs). try_format v ((f # fs) ! i) = Some d
             \<and> (\<forall>j<i. try_format v ((f # fs) ! j) = None)) \<longleftrightarrow>
          (\<exists>i<length fs. try_format v (fs ! i) = Some d \<and> (\<forall>j<i. try_format v (fs ! j) = None))"
      (is "?L \<longleftrightarrow> ?R")
    proof
      assume ?L
      then obtain i where i: "i < length (f # fs)" "try_format v ((f # fs) ! i) = Some d"
        "\<forall>j<i. try_format v ((f # fs) ! j) = None" by blast
      from i(2) None obtain k where k: "i = Suc k" by (cases i) auto
      with i(1,2) have "k < length fs" "try_format v (fs ! k) = Some d" by auto
      moreover have "\<forall>j<k. try_format v (fs ! j) = None"
      proof (intro allI impI)
        fix j assume "j < k"
        then have "Suc j < i" using k by simp
        with i(3) have "try_format v ((f # fs) ! Suc j) = None" by blast
        then show "try_format v (fs ! j) = None" by simp
      qed
      ultimately show ?R by blast
    next
      assume ?R
      then obtain k where k: "k < length fs" "try_format v (fs ! k) = Some d"
        "\<forall>j<k. try_format v (fs ! j) = None" by blast
      have "\<forall>j<Suc k. try_format v ((f # fs) ! j) = None"
      proof (intro allI impI)
        fix j assume "j < Suc k"
        then show "try_format v ((f # fs) ! j) = None"
          using None k(3) by (cases j) auto
      qed
      with k(1,2) show ?L by (intro exI[of _ "Suc k"]) simp
    qed
    with None Cons.IH show ?thesis by simp
  qed
qed

lemma try_formats_None_iff:
  "try_formats fs v = None \<longleftrightarrow> (\<forall>i<length fs. try_format v (fs ! i) = None)"
proof (induction fs)
  case Nil
  then show ?case by simp
next
  case (Cons f fs)
  show ?case
  proof (cases "try_format v f")
    case (Some d')
    then have "try_format v ((f # fs) ! 0) \<noteq> None" by simp
    then have "\<not> (\<forall>i<length (f # fs). try_format v ((f # fs) ! i) = None)" by fastforce
    with Some show ?thesis by simp
  next
    case None
    have "(\<forall>i<length (f # fs). try_format v ((f # fs) ! i) = None) \<longleftrightarrow>
          (\<forall>i<length fs. try_format v (fs ! i) = None)"
      using None by (auto simp: nth_Cons split: nat.splits)
    with None Cons.IH show ?thesis by simp
  qed
qed

lemma strip_example: "strip ''03/04/05'' = ''03/04/05''"
  by (simp add: strip_def is_space_def code_point_def)

lemma day_first_four_digit_fails: "try_format ''03/04/05'' (formats ! 0) = None"
  by (simp add: formats_def try_format_def strptime_def found_init_def is_digit_def digit_val_def code_point_def)

lemma day_first_two_digit: "try_format ''03/04/05'' (formats ! 1) = Some (Date 2005 4 3)"
  by (simp add: formats_def try_format_def strptime_def found_init_def is_digit_def digit_val_def code_point_def
      century_def make_date_def days_in_month_def)

lemma month_first_two_digit: "try_format ''03/04/05'' (formats ! 3) = Some (Date 2005 3 4)"
  by (simp add: formats_def try_format_def strptime_def found_init_def is_digit_def digit_val_def code_point_def
      century_def make_date_def days_in_month_def)

text \<open>
  Claim C7. \<^verbatim>\<open>parse_date\<close> goes through exactly the five formats day/month/year with
  four digits, day/month/year with two digits, month/day/year with four digits,
  month/day/year with two digits and year-month-day, in that order: its result is the
  parse under the first format that succeeds on the stripped string. A string no format
  parses, as every value that is no string, gives \<^verbatim>\<open>None\<close>; nothing is raised.
  \<^verbatim>\<open>"03/04/05"\<close> is read day first, as 3 April 2005.
\<close>

theorem parse_date_format_order:
  "formats =
     [[Dir_d, Lit (CHR ''/''), Dir_m, Lit (CHR ''/''), Dir_Y],
      [Dir_d, Lit (CHR ''/''), Dir_m, Lit (CHR ''/''), Dir_y],
      [Dir_m, Lit (CHR ''/''), Dir_d, Lit (CHR ''/''), Dir_Y],
      [Dir_m, Lit (CHR ''/''), Dir_d, Lit (CHR ''/''), Dir_y],
      [Dir_Y, Lit (CHR ''-''), Dir_m, Lit (CHR ''-''), Dir_d]]
   \<and> (parse_date (JStr s) = Some d \<longleftrightarrow>
        s \<noteq> [] \<and> (\<exists>i<length formats. try_format (strip s) (formats ! i) = Some d
                      \<and> (\<forall>j<i. try_format (strip s) (formats ! j) = None)))
   \<and> (parse_date v = None \<longleftrightarrow>
        (\<forall>s. v = JStr s \<and> s \<noteq> [] \<longrightarrow> (\<forall>i<length formats. try_format (strip s) (formats ! i) = None)))
   \<and> parse_date (JStr ''03/04/05'') = Some (Date 2005 4 3)"
proof -
  have a: "parse_date (JStr s) = Some d \<longleftrightarrow>
        s \<noteq> [] \<and> (\<exists>i<length formats. try_format (strip s) (formats ! i) = Some d
                      \<and> (\<forall>j<i. try_format (strip s) (formats ! j) = None))"
    by (simp add: parse_date_def try_formats_Some_iff)
  have b: "parse_date v = None \<longleftrightarrow>
        (\<forall>s. v = JStr s \<and> s \<noteq> [] \<longrightarrow> (\<forall>i<length formats. try_format (strip s) (formats ! i) = None))"
    by (cases v) (auto simp: parse_date_def try_formats_None_iff)
  have c: "parse_date (JStr ''03/04/05'') = Some (Date 2005 4 3)"
    by (simp add: parse_date_def strip_example) (simp add: formats_def try_format_def strptime_def
        found_init_def is_digit_def digit_val_def code_point_def century_def make_date_def
        days_in_month_def)
  from a b c show ?thesis by (simp add: formats_def)
qed

text \<open>
  The statement above at \<^verbatim>\<open>"03/04/05"\<close>: the first format fails, the second gives
  3 April 2005, and the month-first reading, 4 March 2005, is never reached. At
  \<^verbatim>\<open>"tomorrow"\<close> every format fails.
\<close>

theorem parse_date_format_order_witness:
  "parse_date (JStr ''03/04/05'') = Some (Date 2005 4 3)
   \<and> try_format ''03/04/05'' (formats ! 3) = Some (Date 2005 3 4)
   \<and> parse_date (JStr ''tomorrow'') = None"
proof -
  have "\<exists>i<length formats. try_format (strip ''03/04/05'') (formats ! i) = Some (Date 2005 4 3)
          \<and> (\<forall>j<i. try_format (strip ''03/04/05'') (formats ! j) = None)"
  proof (intro exI[of _ 1] conjI allI impI)
    show "1 < length formats" by (simp add: formats_def)
    show "try_format (strip ''03/04/05'') (formats ! 1) = Some (Date 2005 4 3)"
      by (simp only: strip_example day_first_two_digit)
    fix j :: nat assume "j < 1"
    then have "j = 0" by simp
    then show "try_format (strip ''03/04/05'') (formats ! j) = None"
      by (simp only: strip_example day_first_four_digit_fails)
  qed
  then have "parse_date (JStr ''03/04/05'') = Some (Date 2005 4 3)"
    using parse_date_format_order [of "''03/04/05''" "Date 2005 4 3" "JStr ''03/04/05''"] by simp
  moreover have "parse_date (JStr ''tomorrow'') = None"
    by (simp add: parse_date_def formats_def try_format_def strptime_def found_init_def is_digit_def
        digit_val_def code_point_def strip_def is_space_def)
  ultimately show ?thesis using month_first_two_digit by simp
qed

subsection \<open>Two-digit years\<close>

text \<open>
  Under a format with \<^verbatim>\<open>%y\<close> the year \<^verbatim>\<open>strptime\<close> returns lies between 1969 and
  2068, so the test \<^verbatim>\<open>dt.year < 1930\<close> of \<^verbatim>\<open>parse_date\<close> is never true and the
  date is returned as \<^verbatim>\<open>strptime\<close> made it.
\<close>

lemma first_some_elem: "first_some f xs = Some r \<Longrightarrow> \<exists>x\<in>set xs. f x = Some r"
  by (induction xs) (auto split: option.splits)

lemma year2_alts_range: "(n, rest) \<in> set (year2_alts s) \<Longrightarrow> n \<le> 99"
  by (cases s rule: year2_alts.cases)
     (auto simp: is_digit_def digit_val_def Let_def split: if_splits)

lemma century_range: "n \<le> 99 \<Longrightarrow> 1969 \<le> century n \<and> century n \<le> 2068"
  by (simp add: century_def)

lemma regex_match_two_digit_year:
  assumes "regex_match fmt s acc = Some (g, rest)"
    and "Dir_Y \<notin> set fmt"
    and "Dir_y \<in> set fmt \<or> (1969 \<le> f_year acc \<and> f_year acc \<le> 2068)"
  shows "1969 \<le> f_year g \<and> f_year g \<le> 2068"
  using assms
proof (induction fmt s acc rule: regex_match.induct)
  case (1 s acc)
  then show ?case by simp
next
  case (2 c fmt s acc)
  then show ?case by (cases s) (auto split: if_splits)
next
  case (3 fmt s acc)
  from "3.prems"(1) obtain n r where m: "(n, r) \<in> set (day_alts s)"
    "regex_match fmt r (acc\<lparr>f_day := n\<rparr>) = Some (g, rest)"
    by (auto dest!: first_some_elem)
  from "3.IH" [OF m(2)] "3.prems"(2,3) show ?case by simp
next
  case (4 fmt s acc)
  from "4.prems"(1) obtain n r where m: "(n, r) \<in> set (month_alts s)"
    "regex_match fmt r (acc\<lparr>f_month := n\<rparr>) = Some (g, rest)"
    by (auto dest!: first_some_elem)
  from "4.IH" [OF m(2)] "4.prems"(2,3) show ?case by simp
next
  case (5 fmt s acc)
  then show ?case by simp
next
  case (6 fmt s acc)
  from "6.prems"(1) obtain n r where m: "(n, r) \<in> set (year2_alts s)"
    "regex_match fmt r (acc\<lparr>f_year := century n\<rparr>) = Some (g, rest)"
    by (auto dest!: first_some_elem)
  from m(1) have "1969 \<le> century n \<and> century n \<le> 2068"
    using year2_alts_range century_range by blast
  with "6.IH" [OF m(2)] "6.prems"(2) show ?case by simp
qed

lemma two_digit_year_never_windowed:
  assumes "strptime v fmt = Inr dt" and "Dir_y \<in> set fmt" and "Dir_Y \<notin> set fmt"
  shows "1969 \<le> year dt \<and> year dt \<le> 2068 \<and> try_format v fmt = Some dt"
proof -
  from assms(1) obtain g where g: "regex_match fmt v found_init = Some (g, [])"
    and d: "make_date (f_year g) (f_month g) (f_day g) = Inr dt"
    by (auto simp: strptime_def split: option.splits if_splits)
  from regex_match_two_digit_year [OF g assms(3)] assms(2)
  have "1969 \<le> f_year g \<and> f_year g \<le> 2068" by simp
  moreover from d have "year dt = f_year g"
    by (auto simp: make_date_def split: if_splits)
  ultimately have r: "1969 \<le> year dt \<and> year dt \<le> 2068" by simp
  with assms(1) show ?thesis by (simp add: try_format_def)
qed

text \<open>
  Claim C6 at the two-digit year 35: \<^verbatim>\<open>strptime\<close> has already put the years up to 68
  into the 2000s, so the test \<^verbatim>\<open>dt.year < 1930\<close> never holds and \<^verbatim>\<open>"01/01/35"\<close>
  comes out as 2035, not 1935. The years 05 and 95 come out as 2005 and 1995.
\<close>

theorem parse_date_two_digit_35:
  "parse_date (JStr ''01/01/35'') = Some (Date 2035 1 1)
   \<and> parse_date (JStr ''01/01/05'') = Some (Date 2005 1 1)
   \<and> parse_date (JStr ''01/01/95'') = Some (Date 1995 1 1)"
  by (simp add: parse_date_def formats_def try_format_def strptime_def found_init_def is_digit_def
        digit_val_def code_point_def strip_def is_space_def century_def make_date_def days_in_month_def)

subsection \<open>normalize\_comparison\<close>

lemma sub_lookup:
  "truthy (top_of (JDict (case dict_get_default kvs field (JDict []) of JDict d \<Rightarrow> d | _ \<Rightarrow> [])) sub)
   = truthy (sub_of (JDict kvs) field sub)"
  by (auto simp: sub_of_def top_of_def dict_get_def dict_get_default_def split: option.splits json.splits)

lemma top_lookup:
  "truthy (dict_get_default kvs field (JBool False)) = truthy (top_of (JDict kvs) field)"
  by (auto simp: top_of_def dict_get_def dict_get_default_def split: option.splits)

lemma normalize_dict:
  "normalize_comparison (JDict kvs) =
   JDict
    [(''name'', JDict [(''claim_table'', JBool (truthy (sub_of (JDict kvs) ''name'' ''claim_table'')))]),
     (''license_no'', JDict [(''claim_table'', JBool (truthy (sub_of (JDict kvs) ''license_no'' ''claim_table''))),
                            (''dl_table'', JBool (truthy (sub_of (JDict kvs) ''license_no'' ''dl_table'')))]),
     (''address'', JDict [(''claim_table'', JBool (truthy (sub_of (JDict kvs) ''address'' ''claim_table''))),
                         (''dl_table'', JBool (truthy (sub_of (JDict kvs) ''address'' ''dl_table'')))]),
     (''car_make'', JDict [(''claim_car'', JBool (truthy (sub_of (JDict kvs) ''car_make'' ''claim_car'')))]),
     (''car_model'', JDict [(''claim_car'', JBool (truthy (sub_of (JDict kvs) ''car_model'' ''claim_car'')))]),
     (''car_color'', JDict [(''claim_car'', JBool (truthy (sub_of (JDict kvs) ''car_color'' ''claim_car'')))]),
     (''damage_details'', JDict [(''claim_car'', JBool (truthy (sub_of (JDict kvs) ''damage_details'' ''claim_car'')))]),
     (''license_validity'', JBool (truthy (top_of (JDict kvs) ''license_validity'')))]"
  by (simp add: normalize_comparison_def normalized_init_def normalize_field_def
      normalize_subfields_def top_lookup sub_lookup)

lemma normalize_non_dict: "\<not> is_dict data \<Longrightarrow> normalize_comparison data = JDict normalized_init"
  by (cases data) (simp_all add: normalize_comparison_def)

lemma conforms_init: "conforms_schema (JDict normalized_init)"
  by (simp add: conforms_schema_def normalized_init_def same_shape_def)

lemma conforms_normalize: "conforms_schema (normalize_comparison data)"
proof (cases data)
  case (JDict kvs)
  then show ?thesis
    by (simp only: normalize_dict) (simp add: conforms_schema_def normalized_init_def same_shape_def)
qed (simp_all add: normalize_non_dict conforms_init)

lemma decide_normalize:
  "decide (normalize_comparison data) =
     Inr (if truthy (top_of data ''license_validity'') then ''Claim Accepted'' else ''Claim Rejected'')"
proof (cases data)
  case (JDict kvs)
  show ?thesis
    unfolding JDict normalize_dict
    by (simp add: decide_def required_fields_def bind_e_def dict_get_default_def dict_get_def)
qed (simp_all add: normalize_comparison_def normalized_init_def decide_def required_fields_def bind_e_def dict_get_default_def dict_get_def top_of_def)


lemma top_normalize:
  "top_of (normalize_comparison data) ''license_validity'' = JBool (truthy (top_of data ''license_validity''))"
proof (cases data)
  case (JDict kvs)
  show ?thesis unfolding JDict normalize_dict by (simp add: top_of_def dict_get_def)
qed (simp_all add: normalize_comparison_def normalized_init_def top_of_def dict_get_def)

lemma top_of_Cons:
  "top_of (JDict ((k, v) # kvs)) field = (if k = field then v else top_of (JDict kvs) field)"
  by (simp add: top_of_def dict_get_def)

lemma top_of_Nil: "top_of (JDict []) field = JNull"
  by (simp add: top_of_def dict_get_def)

lemma sub_of_Cons:
  "sub_of (JDict ((k, v) # kvs)) field sub =
     (if k = field then top_of v sub else sub_of (JDict kvs) field sub)"
  by (simp add: sub_of_def top_of_Cons)

lemma sub_of_Nil: "sub_of (JDict []) field sub = JNull"
  by (simp add: sub_of_def top_of_def dict_get_def)

lemma sub_of_non_dict: "\<not> is_dict data \<Longrightarrow> sub_of data field sub = JNull"
  by (cases data) (simp_all add: sub_of_def top_of_def)

lemma required_pairs_eq:
  "required_pairs =
     [(''name'', ''claim_table''), (''license_no'', ''claim_table''), (''license_no'', ''dl_table''),
      (''address'', ''claim_table''), (''address'', ''dl_table''), (''car_make'', ''claim_car''),
      (''car_model'', ''claim_car''), (''car_color'', ''claim_car''),
      (''damage_details'', ''claim_car'')]"
  by (simp add: required_pairs_def required_fields_def)

lemma sub_normalize_dict_all:
  "list_all (\<lambda>(field, sub). sub_of (normalize_comparison (JDict kvs)) field sub =
      JBool (truthy (sub_of (JDict kvs) field sub))) required_pairs"
  unfolding normalize_dict required_pairs_eq
  by (simp add: sub_of_Cons top_of_Cons)

lemma sub_normalize_dict:
  assumes "(field, sub) \<in> set required_pairs"
  shows "sub_of (normalize_comparison (JDict kvs)) field sub =
           JBool (truthy (sub_of (JDict kvs) field sub))"
  using sub_normalize_dict_all [of kvs] assms unfolding list_all_iff by blast

lemma sub_init_all:
  "list_all (\<lambda>(field, sub). sub_of (JDict normalized_init) field sub = JBool False) required_pairs"
  unfolding normalized_init_def required_pairs_eq
  by (simp add: sub_of_Cons top_of_Cons)

lemma sub_init:
  assumes "(field, sub) \<in> set required_pairs"
  shows "sub_of (JDict normalized_init) field sub = JBool False"
  using sub_init_all assms unfolding list_all_iff by blast

lemma sub_normalize:
  assumes "(field, sub) \<in> set required_pairs"
  shows "sub_of (normalize_comparison data) field sub = JBool (truthy (sub_of data field sub))"
proof (cases "is_dict data")
  case True
  then obtain kvs where "data = JDict kvs" by (cases data) simp_all
  with assms show ?thesis by (simp only: sub_normalize_dict)
next
  case False
  with assms show ?thesis
    by (simp add: normalize_non_dict sub_init sub_of_non_dict)
qed

text \<open>
  Claim C5, as the code has it. \<^verbatim>\<open>normalize_comparison\<close> returns the full fixed schema
  for every input and raises on none. Each of the subfields of the seven fields is the truth
  value of the input's entry: false where the field or subfield is missing, where the field is
  no dict, and where the entry is false in Python's sense; true where the entry is true in
  that sense, so an explicit \<^verbatim>\<open>true\<close> is kept and a non-empty string or a non-zero number
  becomes \<^verbatim>\<open>true\<close> as well. \<^verbatim>\<open>license_validity\<close>, when it is no dict, is treated the
  same way. An input that is no dict, and the empty dict, give the all-false schema.
\<close>

theorem normalize_comparison_schema:
  "conforms_schema (normalize_comparison data)
   \<and> ((field, sub) \<in> set required_pairs \<longrightarrow>
        sub_of (normalize_comparison data) field sub = JBool (truthy (sub_of data field sub)))
   \<and> (\<not> is_dict (top_of data ''license_validity'') \<longrightarrow>
        top_of (normalize_comparison data) ''license_validity'' =
          JBool (truthy (top_of data ''license_validity'')))
   \<and> (\<not> is_dict data \<or> data = JDict [] \<longrightarrow> normalize_comparison data = JDict normalized_init)"
proof -
  have "data = JDict [] \<longrightarrow> normalize_comparison data = JDict normalized_init"
    by (simp add: normalize_comparison_def normalized_init_def normalize_field_def
        normalize_subfields_def dict_get_default_def)
  then show ?thesis
    using conforms_normalize [of data] sub_normalize [of field sub data] top_normalize [of data]
      normalize_non_dict [of data]
    by blast
qed

text \<open>
  The statement above at a partial verdict (one subfield and \<^verbatim>\<open>license_validity\<close> set to
  \<^verbatim>\<open>true\<close>, the address absent) and at \<^verbatim>\<open>None\<close>.
\<close>

theorem normalize_comparison_schema_witness:
  "conforms_schema (normalize_comparison (JDict [(''name'', JDict [(''claim_table'', JBool True)]), (''license_validity'', JBool True)]))
   \<and> (''name'', ''claim_table'') \<in> set required_pairs
   \<and> sub_of (normalize_comparison (JDict [(''name'', JDict [(''claim_table'', JBool True)]), (''license_validity'', JBool True)])) ''name'' ''claim_table'' = JBool True
   \<and> (''address'', ''dl_table'') \<in> set required_pairs
   \<and> sub_of (normalize_comparison (JDict [(''name'', JDict [(''claim_table'', JBool True)]), (''license_validity'', JBool True)])) ''address'' ''dl_table'' = JBool False
   \<and> \<not> is_dict (top_of (JDict [(''name'', JDict [(''claim_table'', JBool True)]), (''license_validity'', JBool True)]) ''license_validity'')
   \<and> top_of (normalize_comparison (JDict [(''name'', JDict [(''claim_table'', JBool True)]), (''license_validity'', JBool True)])) ''license_validity'' = JBool True
   \<and> \<not> is_dict JNull
   \<and> normalize_comparison JNull = JDict normalized_init"
  using normalize_comparison_schema [of "JDict [(''name'', JDict [(''claim_table'', JBool True)]), (''license_validity'', JBool True)]" "''name''" "''claim_table''"]
    normalize_comparison_schema [of "JDict [(''name'', JDict [(''claim_table'', JBool True)]), (''license_validity'', JBool True)]" "''address''" "''dl_table''"]
    normalize_comparison_schema [of JNull "''name''" "''claim_table''"]
  by (simp add: required_pairs_eq sub_of_Cons top_of_Cons sub_of_Nil top_of_Nil)

text \<open>
  Claim C5 as written fails: a subfield that is not a boolean does not default to false. The
  string \<^verbatim>\<open>"no"\<close> under \<^verbatim>\<open>name.claim_table\<close> is normalised to \<^verbatim>\<open>true\<close>.
\<close>

theorem normalize_comparison_non_boolean_counterexample:
  "\<not> is_bool (JStr ''no'')
   \<and> sub_of (normalize_comparison (JDict [(''name'', JDict [(''claim_table'', JStr ''no'')])]))
        ''name'' ''claim_table'' = JBool True"
  by (simp add: sub_normalize required_pairs_eq sub_of_Cons top_of_Cons)

subsection \<open>The decision\<close>

text \<open>
  Claim C2. After normalisation the decision is always one of the two outcomes, and it is
  \<^verbatim>\<open>"Claim Accepted"\<close> exactly when the normalised \<^verbatim>\<open>license_validity\<close> is
  \<^verbatim>\<open>true\<close>: that check comes last and assigns \<^verbatim>\<open>all_match\<close> anew. Two verdicts that
  agree on the normalised \<^verbatim>\<open>license_validity\<close> get the same decision, whatever their
  seven other fields are.
\<close>

theorem decision_is_license_validity:
  "(decide (normalize_comparison data) = Inr ''Claim Accepted'' \<or>
    decide (normalize_comparison data) = Inr ''Claim Rejected'')
   \<and> (decide (normalize_comparison data) = Inr ''Claim Accepted'' \<longleftrightarrow>
        top_of (normalize_comparison data) ''license_validity'' = JBool True)
   \<and> (top_of (normalize_comparison data) ''license_validity'' =
        top_of (normalize_comparison data') ''license_validity'' \<longrightarrow>
        decide (normalize_comparison data) = decide (normalize_comparison data'))"
  by (simp add: decide_normalize top_normalize)

text \<open>
  The statement above at two verdicts that differ in \<^verbatim>\<open>name\<close> and agree on the
  normalised \<^verbatim>\<open>license_validity\<close>.
\<close>

theorem decision_is_license_validity_witness:
  "top_of (normalize_comparison (JDict [(''license_validity'', JBool True)])) ''license_validity'' =
     top_of (normalize_comparison
       (JDict [(''name'', JDict [(''claim_table'', JBool True)]), (''license_validity'', JInt 1)]))
       ''license_validity''
   \<and> decide (normalize_comparison (JDict [(''license_validity'', JBool True)])) =
       decide (normalize_comparison
         (JDict [(''name'', JDict [(''claim_table'', JBool True)]), (''license_validity'', JInt 1)]))
   \<and> decide (normalize_comparison (JDict [(''license_validity'', JBool True)])) = Inr ''Claim Accepted''"
proof -
  have same: "top_of (normalize_comparison (JDict [(''license_validity'', JBool True)])) ''license_validity'' =
     top_of (normalize_comparison
       (JDict [(''name'', JDict [(''claim_table'', JBool True)]), (''license_validity'', JInt 1)]))
       ''license_validity''"
    by (simp add: top_normalize top_of_Cons top_of_Nil)
  have lv: "top_of (normalize_comparison (JDict [(''license_validity'', JBool True)])) ''license_validity'' = JBool True"
    by (simp add: top_normalize top_of_Cons top_of_Nil)
  note inst = decision_is_license_validity [of "JDict [(''license_validity'', JBool True)]"
      "JDict [(''name'', JDict [(''claim_table'', JBool True)]), (''license_validity'', JInt 1)]"]
  from inst same have "decide (normalize_comparison (JDict [(''license_validity'', JBool True)])) =
       decide (normalize_comparison
         (JDict [(''name'', JDict [(''claim_table'', JBool True)]), (''license_validity'', JInt 1)]))"
    by blast
  moreover from inst lv have "decide (normalize_comparison (JDict [(''license_validity'', JBool True)])) = Inr ''Claim Accepted''"
    by blast
  ultimately show ?thesis using same by blast
qed

text \<open>
  Claim C1 at a verdict whose check \<^verbatim>\<open>name.claim_table\<close> is \<^verbatim>\<open>false\<close> and whose
  seven other checks are \<^verbatim>\<open>true\<close>: the failed check survives normalisation, and the
  decision is \<^verbatim>\<open>"Claim Accepted"\<close> all the same.
\<close>

theorem decision_ignores_failed_check:
  "sub_of (normalize_comparison
      (JDict [(''name'', JDict [(''claim_table'', JBool False)]),
              (''license_no'', JDict [(''claim_table'', JBool True), (''dl_table'', JBool True)]),
              (''address'', JDict [(''claim_table'', JBool True), (''dl_table'', JBool True)]),
              (''car_make'', JDict [(''claim_car'', JBool True)]),
              (''car_model'', JDict [(''claim_car'', JBool True)]),
              (''car_color'', JDict [(''claim_car'', JBool True)]),
              (''damage_details'', JDict [(''claim_car'', JBool True)]),
              (''license_validity'', JBool True)])) ''name'' ''claim_table'' = JBool False
   \<and> decide (normalize_comparison
      (JDict [(''name'', JDict [(''claim_table'', JBool False)]),
              (''license_no'', JDict [(''claim_table'', JBool True), (''dl_table'', JBool True)]),
              (''address'', JDict [(''claim_table'', JBool True), (''dl_table'', JBool True)]),
              (''car_make'', JDict [(''claim_car'', JBool True)]),
              (''car_model'', JDict [(''claim_car'', JBool True)]),
              (''car_color'', JDict [(''claim_car'', JBool True)]),
              (''damage_details'', JDict [(''claim_car'', JBool True)]),
              (''license_validity'', JBool True)])) = Inr ''Claim Accepted''"
  by (simp add: decide_normalize sub_normalize required_pairs_eq sub_of_Cons top_of_Cons)

text \<open>
  Claim C4, as the code has it. A \<^verbatim>\<open>license_validity\<close> that is no dict is normalised to
  its truth value, and the decision follows it: a boolean stays what it is, an absent field
  and every other value that is false in Python's sense become \<^verbatim>\<open>false\<close>, and every
  other value becomes \<^verbatim>\<open>true\<close>.
\<close>

theorem license_validity_truthiness:
  "(\<not> is_dict (top_of data ''license_validity'') \<longrightarrow>
      top_of (normalize_comparison data) ''license_validity'' =
        JBool (truthy (top_of data ''license_validity''))
      \<and> decide (normalize_comparison data) =
          Inr (if truthy (top_of data ''license_validity'')
               then ''Claim Accepted'' else ''Claim Rejected''))
   \<and> (top_of data ''license_validity'' = JBool b \<longrightarrow>
        top_of (normalize_comparison data) ''license_validity'' = JBool b)"
  by (simp add: top_normalize decide_normalize)

text \<open>
  The statement above at the booleans \<^verbatim>\<open>false\<close> and \<^verbatim>\<open>true\<close> and at an absent
  field.
\<close>

theorem license_validity_truthiness_witness:
  "\<not> is_dict (top_of (JDict [(''license_validity'', JBool False)]) ''license_validity'')
   \<and> top_of (JDict [(''license_validity'', JBool False)]) ''license_validity'' = JBool False
   \<and> top_of (normalize_comparison (JDict [(''license_validity'', JBool False)]))
        ''license_validity'' = JBool False
   \<and> decide (normalize_comparison (JDict [(''license_validity'', JBool False)])) =
        Inr ''Claim Rejected''
   \<and> top_of (JDict [(''license_validity'', JBool True)]) ''license_validity'' = JBool True
   \<and> top_of (normalize_comparison (JDict [(''license_validity'', JBool True)]))
        ''license_validity'' = JBool True
   \<and> \<not> is_dict (top_of (JDict []) ''license_validity'')
   \<and> top_of (normalize_comparison (JDict [])) ''license_validity'' = JBool False"
proof -
  have a: "top_of (JDict [(''license_validity'', JBool False)]) ''license_validity'' = JBool False"
    and b: "top_of (JDict [(''license_validity'', JBool True)]) ''license_validity'' = JBool True"
    and c: "top_of (JDict []) ''license_validity'' = JNull"
    by (simp_all add: top_of_Cons top_of_Nil)
  from license_validity_truthiness [of "JDict [(''license_validity'', JBool False)]" False]
    license_validity_truthiness [of "JDict [(''license_validity'', JBool True)]" True]
    license_validity_truthiness [of "JDict []" False]
  show ?thesis by (simp add: a b c)
qed

text \<open>
  Claim C4 as written fails. A \<^verbatim>\<open>license_validity\<close> that is neither a dict nor a boolean
  is not normalised to \<^verbatim>\<open>false\<close>: the string \<^verbatim>\<open>"no"\<close> is normalised to
  \<^verbatim>\<open>true\<close> and the decision is \<^verbatim>\<open>"Claim Accepted"\<close>. The nested shape
  \<^verbatim>\<open>{"license_validity": {"value": false}}\<close> is not read as its inner value either:
  normalisation takes the truth value of the non-empty dict, and the branch of
  \<^verbatim>\<open>compare_and_email\<close> that would take the inner \<^verbatim>\<open>value\<close> sees only the
  normalised boolean.
\<close>

theorem license_validity_counterexample:
  "\<not> is_dict (JStr ''no'') \<and> \<not> is_bool (JStr ''no'')
   \<and> top_of (normalize_comparison (JDict [(''license_validity'', JStr ''no'')]))
        ''license_validity'' = JBool True
   \<and> decide (normalize_comparison (JDict [(''license_validity'', JStr ''no'')])) =
        Inr ''Claim Accepted''
   \<and> top_of (normalize_comparison
          (JDict [(''license_validity'', JDict [(''value'', JBool False)])]))
        ''license_validity'' = JBool True
   \<and> decide (normalize_comparison
          (JDict [(''license_validity'', JDict [(''value'', JBool False)])])) =
        Inr ''Claim Accepted''"
  by (simp add: top_normalize decide_normalize top_of_Cons)

subsection \<open>extract\_dl\<close>

lemma license_re_match_chars:
  assumes "license_re_match s" "c \<in> set s"
  shows "license_char c \<or> c = newline"
proof -
  have "set s = set (takeWhile license_char s) \<union> set (dropWhile license_char s)"
    by (metis set_append takeWhile_dropWhile_id)
  with assms(2) consider "c \<in> set (takeWhile license_char s)" | "c \<in> set (dropWhile license_char s)"
    by blast
  then show ?thesis
  proof cases
    case 1
    then show ?thesis by (auto dest: set_takeWhileD)
  next
    case 2
    from assms(1) have "dropWhile license_char s = [] \<or> dropWhile license_char s = [newline]"
      by (simp add: license_re_match_def Let_def)
    then show ?thesis
    proof
      assume "dropWhile license_char s = []"
      with 2 show ?thesis by simp
    next
      assume "dropWhile license_char s = [newline]"
      with 2 show ?thesis by simp
    qed
  qed
qed

lemma dl_record_license:
  assumes "safe_extract (dict_get result ''license_no'') = Inr v"
  shows "\<exists>rcd. dl_record result = Inr rcd \<and> dict_get rcd ''LICENSE_NUMBER'' = v"
proof -
  obtain a where a: "safe_extract (dict_get result ''dob'') = Inr a"
    using safe_extract_total by blast
  obtain b where b: "safe_extract (dict_get result ''issue_date'') = Inr b"
    using safe_extract_total by blast
  obtain c where c: "safe_extract (dict_get result ''expiry_date'') = Inr c"
    using safe_extract_total by blast
  obtain d where d: "safe_extract (dict_get result ''name'') = Inr d"
    using safe_extract_total by blast
  obtain e where e: "safe_extract (dict_get result ''address'') = Inr e"
    using safe_extract_total by blast
  obtain f where f: "safe_extract (dict_get result ''endorsements'') = Inr f"
    using safe_extract_total by blast
  obtain g where g: "safe_extract (dict_get result ''sex'') = Inr g"
    using safe_extract_total by blast
  obtain h where h: "safe_extract (dict_get result ''height'') = Inr h"
    using safe_extract_total by blast
  have "dl_record result =
      Inr (normalize_dates
         [(''FULL_NAME'', PJson (py_or d (JStr ''Unknown''))),
          (''LICENSE_NUMBER'', PJson v),
          (''ADDRESS'', PJson e),
          (''DATE_OF_BIRTH'', date_val (parse_date a)),
          (''ISSUE_DATE'', date_val (parse_date b)),
          (''EXPIRY_DATE'', date_val (parse_date c)),
          (''ENDORSEMENTS'', PJson (py_or f (JStr []))),
          (''SEX'', PJson g),
          (''HEIGHT'', PJson h)])"
    by (simp add: dl_record_def extract_key_def bind_e_def a b c d e f g h assms)
  then show ?thesis
    by (simp add: normalize_dates_def dict_get_def)
qed

text \<open>
  Claim C3, as the code has it. When the extracted licence number is a string with a
  character, other than a line feed, that is no word character and no hyphen (a space, a
  slash, a quote), \<^verbatim>\<open>extract_dl\<close> looks nothing up and merges nothing, and it raises
  \<^verbatim>\<open>ValueError\<close>: the node returns no record and no step, and the run fails.
\<close>

theorem extract_dl_invalid_license_number:
  assumes "dl_path st = Some path"
    and "license_predict w path = Inr (JDict result)"
    and "safe_extract (dict_get result ''license_no'') = Inr (JStr s)"
    and "c \<in> set s" and "\<not> license_char c" and "c \<noteq> newline"
  shows "extract_dl w st = ([], Inl ValueError)"
proof -
  from assms(3) obtain rcd where r: "dl_record result = Inr rcd"
    "dict_get rcd ''LICENSE_NUMBER'' = JStr s"
    using dl_record_license by blast
  from assms(4) have ne: "s \<noteq> []" by auto
  from assms(4,5,6) have "\<not> license_re_match s"
    using license_re_match_chars by blast
  with assms(1,2) r ne show ?thesis
    by (simp add: extract_dl_def)
qed

lemma sample_safe: "safe_extract (dict_get [(''license_no'', JStr ''AB 12'')] ''license_no'') = Inr (JStr ''AB 12'')"
  by (simp add: safe_extract_def dict_get_def)

text \<open>
  The statement above at the licence number \<^verbatim>\<open>"AB 12"\<close>, whose space is no word
  character.
\<close>

theorem extract_dl_invalid_license_number_witness:
  "dl_path uploaded_state = Some ''id_dl.png''
   \<and> license_predict (sample_env (JDict [(''license_no'', JStr ''AB 12'')]) JNull JNull) ''id_dl.png''
       = Inr (JDict [(''license_no'', JStr ''AB 12'')])
   \<and> safe_extract (dict_get [(''license_no'', JStr ''AB 12'')] ''license_no'') = Inr (JStr ''AB 12'')
   \<and> CHR '' '' \<in> set ''AB 12'' \<and> \<not> license_char (CHR '' '') \<and> CHR '' '' \<noteq> newline
   \<and> extract_dl (sample_env (JDict [(''license_no'', JStr ''AB 12'')]) JNull JNull) uploaded_state
       = ([], Inl ValueError)"
proof -
  have 1: "dl_path uploaded_state = Some ''id_dl.png''"
    by (simp add: uploaded_state_def initial_state_def)
  have 2: "license_predict (sample_env (JDict [(''license_no'', JStr ''AB 12'')]) JNull JNull) ''id_dl.png''
       = Inr (JDict [(''license_no'', JStr ''AB 12'')])"
    by (simp add: sample_env_def)
  have 4: "CHR '' '' \<in> set ''AB 12''" by simp
  have 5: "\<not> license_char (CHR '' '')" by (simp add: license_char_def is_word_def code_point_def)
  have 6: "CHR '' '' \<noteq> newline" by (simp add: newline_def)
  from extract_dl_invalid_license_number [OF 1 2 sample_safe 4 5 6] 1 2 sample_safe 4 5 6
  show ?thesis by blast
qed

subsection \<open>The order of the stages\<close>

lemma run_is_pipeline:
  "run_claim_processing_workflow w fs = spec_pipeline (stages w) (initial_state fs)"
  by (simp add: run_claim_processing_workflow_def workflow_graph_def stages_def END_def
      eval_nat_numeral split: prod.split sum.split)

lemma nodes_run_append: "nodes_run (xs @ ys) = nodes_run xs @ nodes_run ys"
  by (induction xs rule: nodes_run.induct) simp_all

lemma upload_one_events: "nodes_run (fst (upload_one w fs k i)) = []"
  by (simp add: upload_one_def upload_to_stage_def Let_def split: sum.split)

lemma upload_all_shape:
  assumes "upload_all w st = (evs, r)"
  shows "nodes_run evs = [] \<and> (\<forall>u. r = Inr u \<longrightarrow> u_steps u = [''Uploaded''])"
proof -
  have e: "\<And>k i a b. upload_one w fs k i = (a, b) \<Longrightarrow> nodes_run a = []" for fs
    using upload_one_events by (metis fst_conv)
  from assms show ?thesis
    by (auto simp: upload_all_def no_update_def nodes_run_append
        split: option.splits if_splits prod.splits sum.splits dest: e)
qed

lemma extract_dl_shape:
  assumes "extract_dl w st = (evs, r)"
  shows "nodes_run evs = [] \<and>
    (\<forall>u. r = Inr u \<longrightarrow>
       u_steps u = [''Driver's License Extracted & Stored''] \<or>
       u_steps u = [''DL Extracted (Not Stored: Missing License Number)''])"
  using assms
  by (auto simp: extract_dl_def no_update_def Let_def
      split: option.splits if_splits sum.splits json.splits)

lemma extract_claim_shape:
  assumes "extract_claim w st = (evs, r)"
  shows "nodes_run evs = [] \<and> (\<forall>u. r = Inr u \<longrightarrow> u_steps u = [''Claim Extracted''])"
  using assms
  by (auto simp: extract_claim_def no_update_def bind_e_def
      split: option.splits sum.splits json.splits)

lemma extract_car_shape:
  assumes "extract_car w st = (evs, r)"
  shows "nodes_run evs = [] \<and> (\<forall>u. r = Inr u \<longrightarrow> u_steps u = [''Car Analyzed''])"
  using assms
  by (auto simp: extract_car_def no_update_def bind_e_def Let_def
      split: option.splits sum.splits)

lemma compare_and_email_shape:
  assumes "compare_and_email w st = (evs, r)"
  shows "nodes_run evs = [] \<and> (\<forall>u. r = Inr u \<longrightarrow> u_steps u = [''Compared & Emailed''])"
  using assms
  by (auto simp: compare_and_email_def no_update_def bind_e_def Let_def
      split: option.splits sum.splits)

lemma steps_merge: "steps (merge_update st u) = steps st @ u_steps u"
  by (simp add: merge_update_def)

lemma pipeline_nodes:
  assumes "\<forall>p\<in>set ns. \<forall>st. nodes_run (fst (snd p st)) = []"
  shows "prefix (nodes_run (fst (spec_pipeline ns st))) (map fst ns)
         \<and> (ns \<noteq> [] \<longrightarrow> nodes_run (fst (spec_pipeline ns st)) \<noteq> [])
         \<and> (\<forall>st'. snd (spec_pipeline ns st) = Inr st' \<longrightarrow>
               nodes_run (fst (spec_pipeline ns st)) = map fst ns)"
  using assms
proof (induction ns arbitrary: st)
  case Nil
  then show ?case by simp
next
  case (Cons p ns)
  obtain name f where p: "p = (name, f)" by (cases p)
  have here: "nodes_run (fst (f st)) = []" using Cons.prems p by simp
  obtain evs r where fr: "f st = (evs, r)" by (cases "f st")
  with here have evs: "nodes_run evs = []" by simp
  show ?case
  proof (cases r)
    case (Inl e)
    with fr p evs show ?thesis by simp
  next
    case (Inr u)
    have ih: "prefix (nodes_run (fst (spec_pipeline ns (merge_update st u)))) (map fst ns)
         \<and> (\<forall>st'. snd (spec_pipeline ns (merge_update st u)) = Inr st' \<longrightarrow>
               nodes_run (fst (spec_pipeline ns (merge_update st u))) = map fst ns)"
      using Cons.IH [of "merge_update st u"] Cons.prems by simp
    obtain evs' r' where rest: "spec_pipeline ns (merge_update st u) = (evs', r')"
      by (cases "spec_pipeline ns (merge_update st u)")
    with ih fr Inr p evs show ?thesis
      by (simp add: nodes_run_append)
  qed
qed

lemma stages_events: "\<forall>p\<in>set (stages w). \<forall>st. nodes_run (fst (snd p st)) = []"
proof -
  have "nodes_run (fst (upload_all w st)) = []" for st
    using upload_all_shape [of w st] by (cases "upload_all w st") simp
  moreover have "nodes_run (fst (extract_dl w st)) = []" for st
    using extract_dl_shape [of w st] by (cases "extract_dl w st") simp
  moreover have "nodes_run (fst (extract_claim w st)) = []" for st
    using extract_claim_shape [of w st] by (cases "extract_claim w st") simp
  moreover have "nodes_run (fst (extract_car w st)) = []" for st
    using extract_car_shape [of w st] by (cases "extract_car w st") simp
  moreover have "nodes_run (fst (compare_and_email w st)) = []" for st
    using compare_and_email_shape [of w st] by (cases "compare_and_email w st") simp
  ultimately show ?thesis by (simp add: stages_def)
qed

lemma pipeline_steps:
  assumes "snd (spec_pipeline (stages w) st) = Inr st'"
  shows "steps st' = steps st @ [''Uploaded'', ''Driver's License Extracted & Stored'',
            ''Claim Extracted'', ''Car Analyzed'', ''Compared & Emailed'']
       \<or> steps st' = steps st @ [''Uploaded'', ''DL Extracted (Not Stored: Missing License Number)'',
            ''Claim Extracted'', ''Car Analyzed'', ''Compared & Emailed'']"
proof -
  obtain e1 r1 where 1: "upload_all w st = (e1, r1)" by (cases "upload_all w st")
  with assms obtain u1 where r1: "r1 = Inr u1"
    by (cases r1) (simp_all add: stages_def)
  define s1 where "s1 = merge_update st u1"
  obtain e2 r2 where 2: "extract_dl w s1 = (e2, r2)" by (cases "extract_dl w s1")
  with assms 1 r1 obtain u2 where r2: "r2 = Inr u2"
    by (cases r2) (simp_all add: stages_def s1_def split: prod.splits)
  define s2 where "s2 = merge_update s1 u2"
  obtain e3 r3 where 3: "extract_claim w s2 = (e3, r3)" by (cases "extract_claim w s2")
  with assms 1 r1 2 r2 obtain u3 where r3: "r3 = Inr u3"
    by (cases r3) (simp_all add: stages_def s1_def s2_def split: prod.splits)
  define s3 where "s3 = merge_update s2 u3"
  obtain e4 r4 where 4: "extract_car w s3 = (e4, r4)" by (cases "extract_car w s3")
  with assms 1 r1 2 r2 3 r3 obtain u4 where r4: "r4 = Inr u4"
    by (cases r4) (simp_all add: stages_def s1_def s2_def s3_def split: prod.splits)
  define s4 where "s4 = merge_update s3 u4"
  obtain e5 r5 where 5: "compare_and_email w s4 = (e5, r5)" by (cases "compare_and_email w s4")
  with assms 1 r1 2 r2 3 r3 4 r4 obtain u5 where r5: "r5 = Inr u5"
    by (cases r5) (simp_all add: stages_def s1_def s2_def s3_def s4_def split: prod.splits)
  from assms 1 r1 2 r2 3 r3 4 r4 5 r5 have st': "st' = merge_update s4 u5"
    by (simp add: stages_def s1_def s2_def s3_def s4_def)
  have "steps st' = steps st @ u_steps u1 @ u_steps u2 @ u_steps u3 @ u_steps u4 @ u_steps u5"
    by (simp add: st' s4_def s3_def s2_def s1_def steps_merge)
  moreover have "u_steps u1 = [''Uploaded'']" using upload_all_shape [OF 1] r1 by simp
  moreover have "u_steps u2 = [''Driver's License Extracted & Stored''] \<or>
       u_steps u2 = [''DL Extracted (Not Stored: Missing License Number)'']"
    using extract_dl_shape [OF 2] r2 by simp
  moreover have "u_steps u3 = [''Claim Extracted'']" using extract_claim_shape [OF 3] r3 by simp
  moreover have "u_steps u4 = [''Car Analyzed'']" using extract_car_shape [OF 4] r4 by simp
  moreover have "u_steps u5 = [''Compared & Emailed'']" using compare_and_email_shape [OF 5] r5 by simp
  ultimately show ?thesis by auto
qed

text \<open>
  Claim C9. Running the graph is running the five stages upload, extract-licence,
  extract-claim, extract-vehicle, reconcile-and-decide as a pipeline, in that order. The
  nodes a run enters are a non-empty beginning of that order, each once. A run that
  completes has entered all five and its step log holds one entry of each stage in that
  order (the licence stage has two possible entries). A run in which a stage raises ends
  with the exception alone: no state comes back, and no later stage is entered.
\<close>

theorem workflow_runs_stages_in_order:
  "run_claim_processing_workflow w fs = spec_pipeline (stages w) (initial_state fs)
   \<and> map fst (stages w) = stage_order
   \<and> nodes_run (fst (run_claim_processing_workflow w fs)) \<noteq> []
   \<and> prefix (nodes_run (fst (run_claim_processing_workflow w fs))) stage_order
   \<and> (\<forall>st. snd (run_claim_processing_workflow w fs) = Inr st \<longrightarrow>
         nodes_run (fst (run_claim_processing_workflow w fs)) = stage_order
         \<and> (steps st = [''Uploaded'', ''Driver's License Extracted & Stored'',
                ''Claim Extracted'', ''Car Analyzed'', ''Compared & Emailed'']
            \<or> steps st = [''Uploaded'', ''DL Extracted (Not Stored: Missing License Number)'',
                ''Claim Extracted'', ''Car Analyzed'', ''Compared & Emailed'']))"
proof -
  have order: "map fst (stages w) = stage_order" by (simp add: stages_def stage_order_def)
  have ne: "stages w \<noteq> []" by (simp add: stages_def)
  have "prefix (nodes_run (fst (spec_pipeline (stages w) (initial_state fs)))) (map fst (stages w))
         \<and> (stages w \<noteq> [] \<longrightarrow> nodes_run (fst (spec_pipeline (stages w) (initial_state fs))) \<noteq> [])
         \<and> (\<forall>st'. snd (spec_pipeline (stages w) (initial_state fs)) = Inr st' \<longrightarrow>
               nodes_run (fst (spec_pipeline (stages w) (initial_state fs))) = map fst (stages w))"
    by (rule pipeline_nodes) (rule stages_events)
  note n = this [unfolded order]
  have s: "\<forall>st. snd (spec_pipeline (stages w) (initial_state fs)) = Inr st \<longrightarrow>
     (steps st = [''Uploaded'', ''Driver's License Extracted & Stored'',
                ''Claim Extracted'', ''Car Analyzed'', ''Compared & Emailed'']
            \<or> steps st = [''Uploaded'', ''DL Extracted (Not Stored: Missing License Number)'',
                ''Claim Extracted'', ''Car Analyzed'', ''Compared & Emailed''])"
    using pipeline_steps [of w "initial_state fs"] by (auto simp: initial_state_def)
  from n s ne order show ?thesis unfolding run_is_pipeline by blast
qed

lemmas stage_defs =
  upload_all_def upload_one_def get_file_def upload_to_stage_def path_join_def
  extract_dl_def dl_record_def extract_key_def safe_extract_def dict_get_def dict_get_default_def
  bind_e_def normalize_dates_def py_or_def date_val_def parse_date_def license_re_match_def
  license_char_def is_word_def is_space_def is_digit_def digit_val_def code_point_def strip_def
  formats_def try_format_def strptime_def found_init_def century_def make_date_def
  days_in_month_def is_leap_def isoformat_def digit_char_def newline_def fetch_row_def
  extract_claim_def field_text_def item_0_def subscript_0_def get_value_def search_color_def
  color_at_def end_ok_def lower_ascii_def
  extract_car_def last_part_def get_image_mime_def py_lower_def
  compare_and_email_def require_def
  no_update_def merge_update_def overwrite_def initial_state_def Let_def char_of_def
  bit_Suc_0_iff

lemmas sample_defs =
  sample_env_def sample_files_def valid_license_def invalid_license_def sample_claim_def
  sample_verdict_def

lemma good_run:
  "map_sum id steps (snd (run_claim_processing_workflow
      (sample_env valid_license sample_claim sample_verdict) sample_files)) =
     Inr [''Uploaded'', ''Driver's License Extracted & Stored'',
          ''Claim Extracted'', ''Car Analyzed'', ''Compared & Emailed'']"
  unfolding run_is_pipeline stages_def
  by (simp add: stage_defs sample_defs decide_normalize top_of_Cons)

lemma bad_run:
  "run_claim_processing_workflow (sample_env invalid_license sample_claim sample_verdict)
      sample_files =
     ([NodeRun ''upload'', StagePut ''id_dl.png'', StagePut ''id_claim.pdf'',
       StagePut ''id_car.jpg'', NodeRun ''extract_dl''], Inl ValueError)"
  unfolding run_is_pipeline stages_def
  by (simp add: stage_defs sample_defs)

text \<open>
  The statement above at a run that completes and at a run whose licence stage raises.
\<close>

theorem workflow_runs_stages_in_order_witness:
  "(\<exists>st. snd (run_claim_processing_workflow (sample_env valid_license sample_claim sample_verdict)
        sample_files) = Inr st
      \<and> steps st = [''Uploaded'', ''Driver's License Extracted & Stored'',
                ''Claim Extracted'', ''Car Analyzed'', ''Compared & Emailed''])
   \<and> nodes_run (fst (run_claim_processing_workflow
         (sample_env valid_license sample_claim sample_verdict) sample_files)) = stage_order
   \<and> snd (run_claim_processing_workflow (sample_env invalid_license sample_claim sample_verdict)
        sample_files) = Inl ValueError
   \<and> nodes_run (fst (run_claim_processing_workflow
         (sample_env invalid_license sample_claim sample_verdict) sample_files))
       = [''upload'', ''extract_dl'']
   \<and> prefix [''upload'', ''extract_dl''] stage_order"
proof -
  let ?w = "sample_env valid_license sample_claim sample_verdict"
  obtain st where st: "snd (run_claim_processing_workflow ?w sample_files) = Inr st"
    and s: "steps st = [''Uploaded'', ''Driver's License Extracted & Stored'',
                ''Claim Extracted'', ''Car Analyzed'', ''Compared & Emailed'']"
    using good_run by (cases "snd (run_claim_processing_workflow ?w sample_files)") simp_all
  note inst = workflow_runs_stages_in_order [of ?w sample_files]
  from inst st have n: "nodes_run (fst (run_claim_processing_workflow ?w sample_files)) = stage_order"
    by blast
  have b: "snd (run_claim_processing_workflow (sample_env invalid_license sample_claim sample_verdict)
        sample_files) = Inl ValueError"
    and c: "nodes_run (fst (run_claim_processing_workflow
         (sample_env invalid_license sample_claim sample_verdict) sample_files))
       = [''upload'', ''extract_dl'']"
    by (simp_all add: bad_run)
  have "prefix [''upload'', ''extract_dl''] stage_order"
    by (simp add: stage_order_def)
  with st s n b c show ?thesis by blast
qed

text \<open>
  Claim C3 as written fails: with the licence number \<^verbatim>\<open>"AB 12"\<close> the node raises
  \<^verbatim>\<open>ValueError\<close> instead of returning its extraction, and the run ends there with that
  exception, after the upload and before any later stage.
\<close>

theorem extract_dl_raises_counterexample:
  "extract_dl (sample_env invalid_license sample_claim sample_verdict) uploaded_state
     = ([], Inl ValueError)
   \<and> run_claim_processing_workflow (sample_env invalid_license sample_claim sample_verdict)
        sample_files
     = ([NodeRun ''upload'', StagePut ''id_dl.png'', StagePut ''id_claim.pdf'',
         StagePut ''id_car.jpg'', NodeRun ''extract_dl''], Inl ValueError)"
proof -
  have "extract_dl (sample_env invalid_license sample_claim sample_verdict) uploaded_state
     = ([], Inl ValueError)"
    by (simp add: stage_defs sample_defs uploaded_state_def)
  with bad_run show ?thesis by simp
qed

subsection \<open>extract\_claim\<close>

lemma field_text_raises:
  assumes "\<not> field_ok result field"
  shows "\<exists>e. field_text result field = Inl e"
  using assms
  by (auto simp: field_ok_def field_text_def item_0_def subscript_0_def get_value_def bind_e_def
      dict_get_default_def split: option.splits json.splits list.splits)

lemma color_scan_completes:
  assumes "color_scan [''description'', ''vehicle''] result = Inr r"
  shows "field_ok result ''description'' \<and>
         (color_found result ''description'' \<or> field_ok result ''vehicle'')"
proof -
  have d: "field_ok result ''description''"
  proof (rule ccontr)
    assume "\<not> field_ok result ''description''"
    then obtain e where "field_text result ''description'' = Inl e"
      using field_text_raises by blast
    with assms show False by (simp add: bind_e_def)
  qed
  have "color_found result ''description'' \<or> field_ok result ''vehicle''"
  proof (rule ccontr)
    assume n: "\<not> (color_found result ''description'' \<or> field_ok result ''vehicle'')"
    then obtain e where e: "field_text result ''vehicle'' = Inl e"
      using field_text_raises by blast
    from n have "\<not> color_found result ''description''" by simp
    with assms e show False
      by (auto simp: color_found_def bind_e_def split: sum.splits option.splits)
  qed
  with d show ?thesis by simp
qed

text \<open>
  Claim C10, as the code has it. \<^verbatim>\<open>extract_claim\<close> completes only when the description
  field is absent or a non-empty list whose first element is a dict, and, unless a colour
  was already found in the description, the vehicle field is so too. Where the description
  is present in another shape (a bare string, a plain dict, an empty list), and where no
  colour was found in the description and the vehicle field is present in another shape,
  \<^verbatim>\<open>extract_claim\<close> raises.
\<close>

theorem extract_claim_completes_only_when:
  assumes "claim_path st = Some path"
    and "claims_predict w path = Inr (JDict result)"
  shows "((\<exists>u. snd (extract_claim w st) = Inr u) \<longrightarrow>
            field_ok result ''description'' \<and>
            (color_found result ''description'' \<or> field_ok result ''vehicle''))
       \<and> (\<not> field_ok result ''description'' \<longrightarrow> (\<exists>e. snd (extract_claim w st) = Inl e))
       \<and> (\<not> color_found result ''description'' \<and> \<not> field_ok result ''vehicle'' \<longrightarrow>
            (\<exists>e. snd (extract_claim w st) = Inl e))"
proof -
  have run: "snd (extract_claim w st) =
      bind_e (color_scan [''description'', ''vehicle''] result) (\<lambda>result'.
        Inr (no_update\<lparr>u_claim := Some (JDict result'), u_steps := [''Claim Extracted'']\<rparr>))"
    using assms by (simp add: extract_claim_def)
  have a: "(\<exists>u. snd (extract_claim w st) = Inr u) \<longrightarrow>
            field_ok result ''description'' \<and>
            (color_found result ''description'' \<or> field_ok result ''vehicle'')"
  proof
    assume "\<exists>u. snd (extract_claim w st) = Inr u"
    then obtain r where "color_scan [''description'', ''vehicle''] result = Inr r"
      unfolding run by (cases "color_scan [''description'', ''vehicle''] result") (simp_all add: bind_e_def)
    then show "field_ok result ''description'' \<and>
            (color_found result ''description'' \<or> field_ok result ''vehicle'')"
      by (rule color_scan_completes)
  qed
  have total: "(\<exists>u. snd (extract_claim w st) = Inr u) \<or> (\<exists>e. snd (extract_claim w st) = Inl e)"
    by (cases "snd (extract_claim w st)") simp_all
  from a total show ?thesis by blast
qed

text \<open>
  Claim C10 as written fails for the vehicle field: when the description already gives a
  colour the loop stops, and \<^verbatim>\<open>extract_claim\<close> completes although the vehicle field is a
  bare string.
\<close>

theorem extract_claim_bare_vehicle_counterexample:
  "\<not> field_ok [(''description'', JList [JDict [(''value'', JStr ''Color: red, dent'')]]),
                 (''vehicle'', JStr ''sedan'')] ''vehicle''
   \<and> extract_claim (sample_env valid_license mixed_claim sample_verdict) uploaded_state =
       ([], Inr (no_update\<lparr>u_claim := Some (JDict
          [(''description'', JList [JDict [(''value'', JStr ''Color: red, dent'')]]),
           (''vehicle'', JStr ''sedan''),
           (''car_color'', JList [JDict [(''value'', JStr ''red'')]])]),
          u_steps := [''Claim Extracted'']\<rparr>))"
  by (simp add: field_ok_def stage_defs sample_defs uploaded_state_def mixed_claim_def)

text \<open>
  The statement above at a result that completes (the colour is in the description), and at
  a result whose description is a bare string, which raises \<^verbatim>\<open>AttributeError\<close>.
\<close>

theorem extract_claim_completes_only_when_witness:
  "claim_path uploaded_state = Some ''id_claim.pdf''
   \<and> claims_predict (sample_env valid_license mixed_claim sample_verdict) ''id_claim.pdf'' =
        Inr (JDict [(''description'', JList [JDict [(''value'', JStr ''Color: red, dent'')]]),
                    (''vehicle'', JStr ''sedan'')])
   \<and> (\<exists>u. snd (extract_claim (sample_env valid_license mixed_claim sample_verdict) uploaded_state) = Inr u)
   \<and> field_ok [(''description'', JList [JDict [(''value'', JStr ''Color: red, dent'')]]),
               (''vehicle'', JStr ''sedan'')] ''description''
   \<and> color_found [(''description'', JList [JDict [(''value'', JStr ''Color: red, dent'')]]),
               (''vehicle'', JStr ''sedan'')] ''description''
   \<and> claims_predict (sample_env valid_license string_claim sample_verdict) ''id_claim.pdf'' =
        Inr (JDict [(''description'', JStr ''Color: red, dent'')])
   \<and> \<not> field_ok [(''description'', JStr ''Color: red, dent'')] ''description''
   \<and> snd (extract_claim (sample_env valid_license string_claim sample_verdict) uploaded_state)
       = Inl AttributeError"
proof -
  have p: "claim_path uploaded_state = Some ''id_claim.pdf''"
    by (simp add: uploaded_state_def initial_state_def)
  have q: "claims_predict (sample_env valid_license mixed_claim sample_verdict) ''id_claim.pdf'' =
        Inr (JDict [(''description'', JList [JDict [(''value'', JStr ''Color: red, dent'')]]),
                    (''vehicle'', JStr ''sedan'')])"
    by (simp add: sample_env_def mixed_claim_def)
  have q': "claims_predict (sample_env valid_license string_claim sample_verdict) ''id_claim.pdf'' =
        Inr (JDict [(''description'', JStr ''Color: red, dent'')])"
    by (simp add: sample_env_def string_claim_def)
  have fin: "\<exists>u. snd (extract_claim (sample_env valid_license mixed_claim sample_verdict) uploaded_state) = Inr u"
    by (simp add: stage_defs sample_defs uploaded_state_def mixed_claim_def)
  have bad: "\<not> field_ok [(''description'', JStr ''Color: red, dent'')] ''description''"
    by (simp add: field_ok_def)
  have err: "snd (extract_claim (sample_env valid_license string_claim sample_verdict) uploaded_state)
       = Inl AttributeError"
    by (simp add: stage_defs sample_defs uploaded_state_def string_claim_def)
  have cf: "color_found [(''description'', JList [JDict [(''value'', JStr ''Color: red, dent'')]]),
               (''vehicle'', JStr ''sedan'')] ''description''"
    by (simp add: color_found_def stage_defs)
  from extract_claim_completes_only_when [OF p q] extract_claim_completes_only_when [OF p q']
    p q q' fin bad err cf
  show ?thesis by blast
qed

end
